theory Spec2Isabelle
  imports Main "HOL-Library.AList" "HOL-Library.Multiset"
begin

section \<open>JavaScript values\<close>

text \<open>
  PVCollection.js stores plain data: the attribute mappings of a model, the snapshots
  handed to \<^verbatim>\<open>Collection.set\<close>, the identifiers handed to
  \<^verbatim>\<open>Collection.remove\<close>. A value is \<^verbatim>\<open>undefined\<close>,
  \<^verbatim>\<open>null\<close>, a boolean, a number, a string, an array or a plain object.
  Numbers are integers (the ids and counters of the program); \<^verbatim>\<open>NaN\<close>,
  negative zero, infinities and fractions have no image here, and where an operation of
  the language yields \<^verbatim>\<open>NaN\<close> the result is an option. An object is the
  list of its own enumerable properties in the order in which the language lists them:
  the names that are array indices first, by ascending index, and then the other names in
  the order of their creation; its prototype is \<^verbatim>\<open>Object.prototype\<close>. Values are
  finite trees, so no value contains itself, and no value is a function.
\<close>

datatype jsval =
    JUndefined
  | JNull
  | JBool bool
  | JNum int
  | JStr string
  | JArr "jsval list"
  | JObj "(string \<times> jsval) list"

type_synonym props = "(string \<times> jsval) list"

text \<open>\<^verbatim>\<open>!v\<close> is true for undefined, null, false, 0 and the empty string.\<close>

fun truthy :: "jsval \<Rightarrow> bool" where
  "truthy JUndefined = False"
| "truthy JNull = False"
| "truthy (JBool b) = b"
| "truthy (JNum n) = (n \<noteq> 0)"
| "truthy (JStr s) = (s \<noteq> [])"
| "truthy (JArr xs) = True"
| "truthy (JObj ps) = True"

fun typeof :: "jsval \<Rightarrow> string" where
  "typeof JUndefined = ''undefined''"
| "typeof JNull = ''object''"
| "typeof (JBool b) = ''boolean''"
| "typeof (JNum n) = ''number''"
| "typeof (JStr s) = ''string''"
| "typeof (JArr xs) = ''object''"
| "typeof (JObj ps) = ''object''"

text \<open>
  \<^verbatim>\<open>a === b\<close>, as \<^verbatim>\<open>Array.prototype.indexOf\<close> compares. Primitives
  compare by value. Two arrays or objects are identical only when they are one object;
  the embedding does not track the identity of objects, and answers false, which is what
  the program sees whenever the two operands were allocated apart (a snapshot element
  against the attributes of a model, which are always a fresh \<^verbatim>\<open>$.extend\<close> copy).
\<close>

fun strict_eq :: "jsval \<Rightarrow> jsval \<Rightarrow> bool" where
  "strict_eq JUndefined b = (b = JUndefined)"
| "strict_eq JNull b = (b = JNull)"
| "strict_eq (JBool x) b = (b = JBool x)"
| "strict_eq (JNum x) b = (b = JNum x)"
| "strict_eq (JStr x) b = (b = JStr x)"
| "strict_eq (JArr xs) b = False"
| "strict_eq (JObj ps) b = False"

text \<open>\<^verbatim>\<open>xs.indexOf(v)\<close>: the first position holding a value identical to
  \<open>v\<close>; \<open>None\<close> stands for \<open>-1\<close>.\<close>

fun indexOf :: "jsval list \<Rightarrow> jsval \<Rightarrow> nat option" where
  "indexOf [] v = None"
| "indexOf (x # xs) v =
     (if strict_eq x v then Some 0 else map_option Suc (indexOf xs v))"

subsection \<open>Strings of numbers\<close>

definition digit_char :: "nat \<Rightarrow> char" where
  "digit_char n = ''0123456789'' ! (n mod 10)"

fun nat_to_string :: "nat \<Rightarrow> string" where
  "nat_to_string n =
     (if n < 10 then [digit_char n] else nat_to_string (n div 10) @ [digit_char n])"

declare nat_to_string.simps [simp del]

definition int_to_string :: "int \<Rightarrow> string" where
  "int_to_string i = (if i < 0 then CHR ''-'' # nat_to_string (nat (- i)) else nat_to_string (nat i))"

text \<open>\<^verbatim>\<open>String(v)\<close>. An array joins its elements with commas, with undefined and
  null elements as empty strings; a plain object is \<^verbatim>\<open>[object Object]\<close>.\<close>

fun to_string :: "jsval \<Rightarrow> string"
  and join_elems :: "jsval list \<Rightarrow> string"
where
  "to_string JUndefined = ''undefined''"
| "to_string JNull = ''null''"
| "to_string (JBool b) = (if b then ''true'' else ''false'')"
| "to_string (JNum n) = int_to_string n"
| "to_string (JStr s) = s"
| "to_string (JArr xs) = join_elems xs"
| "to_string (JObj ps) = ''[object Object]''"
| "join_elems [] = []"
| "join_elems (x # xs) =
     (if x = JUndefined \<or> x = JNull then [] else to_string x)
       @ (if xs = [] then [] else CHR '','' # join_elems xs)"

definition is_space :: "char \<Rightarrow> bool" where
  "is_space c = (c \<in> set [CHR '' '', CHR 0x09, CHR 0x0A, CHR 0x0B, CHR 0x0C, CHR 0x0D])"

definition digit_of :: "char \<Rightarrow> nat option" where
  "digit_of c =
     (let n = (of_char c :: nat) in if 48 \<le> n \<and> n \<le> 57 then Some (n - 48) else None)"

text \<open>The value of the longest prefix of decimal digits, given the value read so far;
  \<open>None\<close> when there is no digit at all.\<close>

fun digits_prefix :: "nat option \<Rightarrow> string \<Rightarrow> nat option" where
  "digits_prefix acc [] = acc"
| "digits_prefix acc (c # cs) =
     (case digit_of c of
        None \<Rightarrow> acc
      | Some d \<Rightarrow> digits_prefix (Some ((case acc of None \<Rightarrow> 0 | Some a \<Rightarrow> 10 * a) + d)) cs)"

text \<open>\<^verbatim>\<open>parseInt(v, 10)\<close>: the argument as a string, leading white space
  skipped, an optional sign, then the longest run of digits; \<open>None\<close> is
  \<^verbatim>\<open>NaN\<close>.\<close>

definition parseInt :: "jsval \<Rightarrow> int option" where
  "parseInt v =
     (let s = dropWhile is_space (to_string v) in
      case s of
        [] \<Rightarrow> None
      | c # cs \<Rightarrow>
          if c = CHR ''-'' then map_option (\<lambda>n. - int n) (digits_prefix None cs)
          else if c = CHR ''+'' then map_option int (digits_prefix None cs)
          else map_option int (digits_prefix None s))"

subsection \<open>Reading a property\<close>

text \<open>How a call ends other than by returning: a \<^verbatim>\<open>TypeError\<close> is thrown; or
  (\<open>Untyped\<close>) the call has no image in the embedding, because it takes a function of
  a built-in prototype as a value, because it replaces the prototype of an object, or
  because an internal \<^verbatim>\<open>set\<close> writes a member to which the embedding gives a
  fixed type.\<close>

datatype failure =
    TypeError
  | Untyped

text \<open>The members every object inherits from \<^verbatim>\<open>Object.prototype\<close>: eleven
  functions, and the accessor \<^verbatim>\<open>__proto__\<close>. None is enumerable.\<close>

definition object_functions :: "string list" where
  "object_functions = [''constructor'', ''toString'', ''toLocaleString'', ''valueOf'', ''hasOwnProperty'',
     ''isPrototypeOf'', ''propertyIsEnumerable'', ''__defineGetter__'', ''__defineSetter__'',
     ''__lookupGetter__'', ''__lookupSetter__'']"

definition object_prototype :: "string list" where
  "object_prototype = object_functions @ [''__proto__'']"

text \<open>\<^verbatim>\<open>x[name]\<close>. Reading a property of undefined or null throws; a primitive
  has no property of its own but \<^verbatim>\<open>length\<close> and the indices of a string, as an
  array has. A name that is not an own property is looked up in the prototype: the
  members of \<^verbatim>\<open>Object.prototype\<close> are functions and have no image, any other name
  reads as undefined (the program reads \<^verbatim>\<open>x[oldItem._uniqueField]\<close>, and the unique
  field is \<^verbatim>\<open>id\<close>; the methods of strings, numbers and arrays are not listed).\<close>

definition inherited :: "string \<Rightarrow> failure + jsval" where
  "inherited name = (if name \<in> set object_prototype then Inl Untyped else Inr JUndefined)"

definition index_name :: "nat \<Rightarrow> string \<Rightarrow> bool" where
  "index_name i name = (name = nat_to_string i)"

fun find_index_name :: "nat \<Rightarrow> 'a list \<Rightarrow> string \<Rightarrow> 'a option" where
  "find_index_name i [] name = None"
| "find_index_name i (x # xs) name =
     (if index_name i name then Some x else find_index_name (Suc i) xs name)"

fun get_prop :: "jsval \<Rightarrow> string \<Rightarrow> failure + jsval" where
  "get_prop JUndefined name = Inl TypeError"
| "get_prop JNull name = Inl TypeError"
| "get_prop (JBool b) name = inherited name"
| "get_prop (JNum n) name = inherited name"
| "get_prop (JStr s) name =
     (if name = ''length'' then Inr (JNum (int (length s)))
      else case find_index_name 0 s name of None \<Rightarrow> inherited name | Some c \<Rightarrow> Inr (JStr [c]))"
| "get_prop (JArr xs) name =
     (if name = ''length'' then Inr (JNum (int (length xs)))
      else case find_index_name 0 xs name of None \<Rightarrow> inherited name | Some x \<Rightarrow> Inr x)"
| "get_prop (JObj ps) name = (case map_of ps name of None \<Rightarrow> inherited name | Some v \<Rightarrow> Inr v)"

text \<open>The own property of a name in a property list, undefined when there is none.\<close>

definition lookup :: "props \<Rightarrow> string \<Rightarrow> jsval" where
  "lookup ps name = (case map_of ps name of None \<Rightarrow> JUndefined | Some v \<Rightarrow> v)"

text \<open>\<^verbatim>\<open>obj[name]\<close> on a plain object, where the value is compared or handed on:
  the own property, or else the member of \<^verbatim>\<open>Object.prototype\<close> of that name, or
  else undefined.\<close>

datatype slot = Data jsval | Inherited string

definition read :: "props \<Rightarrow> string \<Rightarrow> slot" where
  "read ps name =
     (case map_of ps name of
        Some v \<Rightarrow> Data v
      | None \<Rightarrow> if name \<in> set object_prototype then Inherited name else Data JUndefined)"

subsection \<open>Assigning a property\<close>

text \<open>
  A name is an array index when it is the decimal numeral, without leading zeros, of a
  number below 4294967295. \<^verbatim>\<open>obj[name] = v\<close> on a plain object replaces the
  value of an own property where it stands, and creates a new property otherwise: among
  the array indices, before the first greater one, when the name is an array index, and
  last when it is not. So the list stays in the order in which
  \<^verbatim>\<open>for (k in obj)\<close> and \<^verbatim>\<open>Object.keys(obj)\<close> list the properties.
\<close>

definition numeral_value :: "string \<Rightarrow> int" where
  "numeral_value s = foldl (\<lambda>a c. 10 * a + (case digit_of c of None \<Rightarrow> 0 | Some d \<Rightarrow> int d)) 0 s"

definition array_index :: "string \<Rightarrow> int option" where
  "array_index s =
     (if s \<noteq> [] \<and> list_all (\<lambda>c. digit_of c \<noteq> None) s \<and> (if hd s = CHR ''0'' then s = ''0'' else True)
         \<and> length s \<le> 10 \<and> numeral_value s < 4294967295
      then Some (numeral_value s) else None)"

definition index_below :: "int \<Rightarrow> string \<times> jsval \<Rightarrow> bool" where
  "index_below n p = (case array_index (fst p) of None \<Rightarrow> False | Some i \<Rightarrow> i < n)"

definition assign :: "string \<Rightarrow> jsval \<Rightarrow> props \<Rightarrow> props" where
  "assign name v ps =
     (if name \<in> set (map fst ps) then AList.update name v ps
      else case array_index name of
        None \<Rightarrow> ps @ [(name, v)]
      | Some n \<Rightarrow> takeWhile (index_below n) ps @ (name, v) # dropWhile (index_below n) ps)"

text \<open>The same assignment when the name may be \<^verbatim>\<open>__proto__\<close>. On an object that
  does not own the name it goes to the accessor of \<^verbatim>\<open>Object.prototype\<close>: a value
  that is an object or null becomes the prototype (\<open>sets_prototype\<close>), any other value is
  dropped, and no property is created.\<close>

definition store :: "string \<Rightarrow> jsval \<Rightarrow> props \<Rightarrow> props" where
  "store name v ps =
     (if name = ''__proto__'' \<and> name \<notin> set (map fst ps) then ps else assign name v ps)"

definition sets_prototype :: "props \<Rightarrow> string \<Rightarrow> jsval \<Rightarrow> bool" where
  "sets_prototype ps name v =
     (name = ''__proto__'' \<and> name \<notin> set (map fst ps) \<and> typeof v = ''object'')"

section \<open>The equality oracle: isEqual\<close>

text \<open>
  \<^verbatim>\<open>eq(a, b, aStack, bStack)\<close>. Identical primitives are equal (the test on
  \<^verbatim>\<open>1 / a\<close> separates the two zeros, of which the integers have one); null and
  undefined equal only themselves; values of different class are unequal; strings,
  numbers and booleans compare by value; arrays by length and then element by element;
  objects by their constructors, by the number of keys and then, for every key of \<open>a\<close>,
  by \<open>b\<close> owning the key with an equal value. The two stacks hold the objects being
  traversed and stop the recursion on a cycle: a finite tree has none, so they never
  match.

  \<^verbatim>\<open>a.constructor\<close> is the own property of that name, or else
  \<^verbatim>\<open>Object\<close>. Two objects pass the test on the constructors when neither owns the
  property, or both own it with identical values; a data value is no function, so the
  exception made for constructors that are instances of themselves never applies.
\<close>

definition same_constructor :: "props \<Rightarrow> props \<Rightarrow> bool" where
  "same_constructor ps qs =
     (case map_of ps ''constructor'' of
        None \<Rightarrow> (case map_of qs ''constructor'' of None \<Rightarrow> True | Some b \<Rightarrow> False)
      | Some a \<Rightarrow> (case map_of qs ''constructor'' of None \<Rightarrow> False | Some b \<Rightarrow> strict_eq a b))"

fun eq :: "jsval \<Rightarrow> jsval \<Rightarrow> bool"
  and eq_elems :: "jsval list \<Rightarrow> jsval list \<Rightarrow> bool"
  and eq_members :: "props \<Rightarrow> props \<Rightarrow> bool"
where
  "eq JUndefined b = (b = JUndefined)"
| "eq JNull b = (b = JNull)"
| "eq (JBool x) b = (b = JBool x)"
| "eq (JNum x) b = (b = JNum x)"
| "eq (JStr x) b = (b = JStr x)"
| "eq (JArr xs) b = (case b of JArr ys \<Rightarrow> length xs = length ys \<and> eq_elems xs ys | _ \<Rightarrow> False)"
| "eq (JObj ps) b =
     (case b of
        JObj qs \<Rightarrow> same_constructor ps qs \<and> length qs = length ps \<and> eq_members ps qs
      | _ \<Rightarrow> False)"
| "eq_elems [] ys = True"
| "eq_elems (x # xs) ys = (case ys of [] \<Rightarrow> False | y # ys' \<Rightarrow> eq x y \<and> eq_elems xs ys')"
| "eq_members [] qs = True"
| "eq_members (p # ps) qs =
     ((case map_of qs (fst p) of None \<Rightarrow> False | Some w \<Rightarrow> eq (snd p) w) \<and> eq_members ps qs)"

definition isEqual :: "jsval \<Rightarrow> jsval \<Rightarrow> bool" where
  "isEqual a b = eq a b"

section \<open>The deep merge: jQuery's extend\<close>

text \<open>
  \<^verbatim>\<open>$.extend(true, target, options)\<close> is jQuery's, not this repository's; it is
  modelled from jQuery's source (3.4 and later). For every enumerable property
  \<^verbatim>\<open>name\<close> of \<^verbatim>\<open>options\<close> with value \<^verbatim>\<open>copy\<close>: the name
  \<^verbatim>\<open>__proto__\<close> is skipped; a plain object or an array
  is merged recursively into the target's value when that is of the same kind, and into a
  new empty one otherwise; any other value but undefined is assigned; undefined is
  skipped. \<open>merged src copy\<close> is the value assigned for \<^verbatim>\<open>src = target[name]\<close>,
  \<open>None\<close> when nothing is assigned; a \<^verbatim>\<open>src\<close> inherited from
  \<^verbatim>\<open>Object.prototype\<close> is neither a plain object nor an array, and counts as
  undefined does.
\<close>

text \<open>\<^verbatim>\<open>xs[i] = v\<close> on an array: past the end the array grows, and the
  holes read as undefined.\<close>

definition put_index :: "jsval list \<Rightarrow> nat \<Rightarrow> jsval \<Rightarrow> jsval list" where
  "put_index xs i v = (if i < length xs then xs[i := v] else xs @ replicate (i - length xs) JUndefined @ [v])"

definition at_index :: "jsval list \<Rightarrow> nat \<Rightarrow> jsval" where
  "at_index xs i = (if i < length xs then xs ! i else JUndefined)"

fun merged :: "jsval \<Rightarrow> jsval \<Rightarrow> jsval option"
  and extend_props :: "props \<Rightarrow> props \<Rightarrow> props"
  and extend_elems :: "jsval list \<Rightarrow> nat \<Rightarrow> jsval list \<Rightarrow> jsval list"
where
  "merged src JUndefined = None"
| "merged src JNull = Some JNull"
| "merged src (JBool b) = Some (JBool b)"
| "merged src (JNum n) = Some (JNum n)"
| "merged src (JStr s) = Some (JStr s)"
| "merged src (JArr ys) =
     Some (JArr (extend_elems (case src of JArr xs \<Rightarrow> xs | _ \<Rightarrow> []) 0 ys))"
| "merged src (JObj qs) =
     Some (JObj (extend_props (case src of JObj ps \<Rightarrow> ps | _ \<Rightarrow> []) qs))"
| "extend_props target [] = target"
| "extend_props target (q # qs) =
     extend_props
       (if fst q = ''__proto__'' then target
        else case merged (lookup target (fst q)) (snd q) of
          None \<Rightarrow> target
        | Some v \<Rightarrow> assign (fst q) v target)
       qs"
| "extend_elems target i [] = target"
| "extend_elems target i (y # ys) =
     extend_elems
       (case merged (at_index target i) y of
          None \<Rightarrow> target
        | Some v \<Rightarrow> put_index target i v)
       (Suc i) ys"


text \<open>The own enumerable properties a \<^verbatim>\<open>for (k in v)\<close> loop visits, in its
  order: those of an object, the indices of an array or of a string; none for the other
  values.\<close>

fun indexed :: "nat \<Rightarrow> jsval list \<Rightarrow> props" where
  "indexed i [] = []"
| "indexed i (x # xs) = (nat_to_string i, x) # indexed (Suc i) xs"

fun own_entries :: "jsval \<Rightarrow> props" where
  "own_entries (JObj ps) = ps"
| "own_entries (JArr xs) = indexed 0 xs"
| "own_entries (JStr s) = indexed 0 (map (\<lambda>c. JStr [c]) s)"
| "own_entries v = []"

text \<open>\<^verbatim>\<open>$.extend(true, {}, a, b)\<close> with \<open>a\<close> a property list: the program
  always merges into a new empty object. A null or undefined argument is skipped.\<close>

definition extend2 :: "jsval \<Rightarrow> jsval \<Rightarrow> props" where
  "extend2 a b = extend_props (extend_props [] (own_entries a)) (own_entries b)"

definition extend1 :: "jsval \<Rightarrow> props" where
  "extend1 a = extend_props [] (own_entries a)"

section \<open>The environment\<close>

text \<open>
  \<^verbatim>\<open>moment()\<close> reads the clock and \<^verbatim>\<open>guid()\<close> draws random digits.
  What they return during one call of an operation is an argument of the operation: the
  instant of the call, and the string the \<open>i\<close>-th model object ever allocated gets.
\<close>

record env =
  clock :: nat
  guid_of :: "nat \<Rightarrow> string"

section \<open>Model\<close>

datatype mhandler = MOnDirty | MOnChange | MOnRender | MOnError

datatype mevent = MEvError | MEvChange nat | MEvDirty | MEvRender

text \<open>
  The fields are the properties the constructor assigns. \<open>m_ref\<close> is the identity of
  the object (two models are one object exactly when they have the same \<open>m_ref\<close>);
  \<open>internals\<close> holds the further own properties an internal \<^verbatim>\<open>set\<close> adds;
  \<open>m_fired\<close> records, oldest first, the events triggered on the object. The constructor's
  \<^verbatim>\<open>options\<close>, \<^verbatim>\<open>debug\<close>, \<^verbatim>\<open>$el\<close>, \<^verbatim>\<open>template\<close> and
  \<^verbatim>\<open>templateRender\<close> are not kept: models are built without a template and without
  \<^verbatim>\<open>functions\<close> overrides, and no operation below reads them.
\<close>

record model =
  m_ref :: nat
  guid :: string
  m_dirty :: bool
  changedAttributes :: props
  uniqueField :: string
  created :: nat
  modified :: nat
  attributes :: props
  m_hasBeenRendered :: bool
  m_events :: "(string \<times> mhandler list) list"
  internals :: props
  m_fired :: "mevent list"

text \<open>\<^verbatim>\<open>on\<close>: the callback list of an event is created on first use and is
  \<^verbatim>\<open>$.Callbacks('unique')\<close>, which ignores a callback it already holds.\<close>

definition on_event :: "string \<Rightarrow> 'h \<Rightarrow> (string \<times> 'h list) list \<Rightarrow> (string \<times> 'h list) list" where
  "on_event name h evs =
     (case map_of evs name of
        None \<Rightarrow> AList.update name [h] evs
      | Some hs \<Rightarrow> if h \<in> set hs then evs else AList.update name (hs @ [h]) evs)"

definition off_event :: "string \<Rightarrow> 'h \<Rightarrow> (string \<times> 'h list) list \<Rightarrow> (string \<times> 'h list) list" where
  "off_event name h evs =
     (case map_of evs name of
        None \<Rightarrow> evs
      | Some hs \<Rightarrow> AList.update name (removeAll h hs) evs)"

definition handlers_of :: "string \<Rightarrow> (string \<times> 'h list) list \<Rightarrow> 'h list" where
  "handlers_of name evs = (case map_of evs name of None \<Rightarrow> [] | Some hs \<Rightarrow> hs)"

text \<open>The handlers of a model only log, but \<^verbatim>\<open>onDirty\<close>, which drops the cached
  rendering.\<close>

fun run_mhandler :: "mhandler \<Rightarrow> model \<Rightarrow> model" where
  "run_mhandler MOnDirty m = m\<lparr>m_hasBeenRendered := False\<rparr>"
| "run_mhandler MOnChange m = m"
| "run_mhandler MOnRender m = m"
| "run_mhandler MOnError m = m"

definition Model_trigger :: "string \<Rightarrow> mevent \<Rightarrow> model \<Rightarrow> model" where
  "Model_trigger name ev m =
     fold run_mhandler (handlers_of name (m_events m)) (m\<lparr>m_fired := m_fired m @ [ev]\<rparr>)"

text \<open>
  \<^verbatim>\<open>new Model(opt, attributes)\<close>, with \<^verbatim>\<open>uid\<close> the running id: the
  constructor returns the model and the counter. When \<^verbatim>\<open>id\<close> is not a key of
  the attributes or its value is falsy, it becomes \<^verbatim>\<open>uid()\<close>, which returns the
  counter and then increments it.
\<close>

definition Model_new :: "env \<Rightarrow> nat \<Rightarrow> props \<Rightarrow> nat \<Rightarrow> model \<times> nat" where
  "Model_new e r attrs uid =
     (let uf = ''id'';
          fresh = (if uf \<in> set (map fst attrs) then \<not> truthy (lookup attrs uf) else True);
          attrs' = (if fresh then assign uf (JNum (int uid)) attrs else attrs);
          uid' = (if fresh then Suc uid else uid);
          m = \<lparr> m_ref = r, guid = guid_of e r, m_dirty = False, changedAttributes = [],
                uniqueField = uf, created = clock e, modified = clock e, attributes = attrs',
                m_hasBeenRendered = False, m_events = [], internals = [], m_fired = [] \<rparr>;
          m = m\<lparr>m_dirty := False\<rparr>;
          m = m\<lparr>m_events := on_event ''dirty'' MOnDirty (m_events m)\<rparr>;
          m = m\<lparr>m_events := on_event ''change'' MOnChange (m_events m)\<rparr>;
          m = m\<lparr>m_events := on_event ''render'' MOnRender (m_events m)\<rparr>;
          m = m\<lparr>m_events := on_event ''error'' MOnError (m_events m)\<rparr>
      in (m, uid'))"

definition Model_clean :: "model \<Rightarrow> model" where
  "Model_clean m = m\<lparr>changedAttributes := [], m_dirty := False\<rparr>"

definition Model_toJSON :: "model \<Rightarrow> jsval" where
  "Model_toJSON m = JObj (extend1 (JObj (attributes m)))"

text \<open>The key of a model: \<^verbatim>\<open>m.attributes[m._uniqueField]\<close>. The unique field
  is \<^verbatim>\<open>id\<close>: the constructor sets it, and no operation below changes it.\<close>

definition key_of :: "model \<Rightarrow> jsval" where
  "key_of m = lookup (attributes m) (uniqueField m)"


subsection \<open>The members of a model\<close>

text \<open>
  \<^verbatim>\<open>model[k]\<close> finds the properties the constructor assigns, the methods of
  \<^verbatim>\<open>Model.prototype\<close>, the members of \<^verbatim>\<open>Object.prototype\<close>, and what an
  internal \<^verbatim>\<open>set\<close> added. Some hold data: \<open>data_members\<close> lists them with their
  values (\<^verbatim>\<open>debug\<close> is false, \<^verbatim>\<open>$el\<close> and \<^verbatim>\<open>template\<close> are
  null and \<^verbatim>\<open>templateRender\<close> is empty for the models built here). The attributes
  and the changed attributes are objects the embedding keeps in fields of their own. The
  others are opaque: the options (which hold the collection), the collection, the two
  moment objects, the event table, the prototype, and the functions.
\<close>

definition data_members :: "model \<Rightarrow> props" where
  "data_members m =
     [(''guid'', JStr (guid m)), (''debug'', JBool False), (''_dirty'', JBool (m_dirty m)),
      (''_uniqueField'', JStr (uniqueField m)), (''_hasBeenRendered'', JBool (m_hasBeenRendered m)),
      (''$el'', JNull), (''template'', JNull), (''templateRender'', JStr [])]
     @ internals m"

definition field_members :: "string list" where
  "field_members = [''changedAttributes'', ''attributes'']"

definition opaque_members :: "string list" where
  "opaque_members = [''options'', ''collection'', ''created'', ''modified'', ''_events'', ''__proto__'']"

definition function_members :: "string list" where
  "function_members = [''_initialize'', ''initialize'', ''clean'', ''get'', ''set'', ''render'',
     ''getAttributes'', ''parser'', ''toJSON'', ''onChange'', ''onRender'', ''onDirty'', ''onError'',
     ''log'', ''initTemplate'', ''on'', ''off'', ''trigger''] @ object_functions"

definition scalar_members :: "string list" where
  "scalar_members = [''guid'', ''debug'', ''_dirty'', ''_uniqueField'', ''_hasBeenRendered'', ''$el'',
     ''template'', ''templateRender'']"

text \<open>\<^verbatim>\<open>typeof model[k]\<close>.\<close>

definition typeof_member :: "model \<Rightarrow> string \<Rightarrow> string" where
  "typeof_member m k =
     (if k \<in> set field_members \<or> k \<in> set opaque_members then ''object''
      else if k \<in> set function_members then ''function''
      else typeof (lookup (data_members m) k))"

subsection \<open>Model.get\<close>

text \<open>
  What \<^verbatim>\<open>get\<close> puts under a key of its result: \<open>Stored v\<close> is the value the
  attributes hold, the same object when it is an array or an object; \<open>Copied ps\<close> is a
  new object that \<^verbatim>\<open>$.extend(true, {}, v)\<close> made, which is empty when
  \<^verbatim>\<open>v\<close> has no enumerable property; \<open>Member name\<close> is the member of
  \<^verbatim>\<open>Object.prototype\<close> that \<^verbatim>\<open>attributes[name]\<close> finds when the
  attributes do not own the name, and \<open>GMember name\<close> the same as the result of the call.
  \<^verbatim>\<open>result["__proto__"] = v\<close> replaces the prototype of the result and creates no
  property.
\<close>

datatype got = Stored jsval | Copied props | Member string

definition put_got :: "string \<Rightarrow> got \<Rightarrow> (string \<times> got) list \<Rightarrow> (string \<times> got) list" where
  "put_got name g result =
     (if name = ''__proto__'' then result
      else if name \<in> set (map fst result) then AList.update name g result
      else case array_index name of
        None \<Rightarrow> result @ [(name, g)]
      | Some n \<Rightarrow>
          takeWhile (\<lambda>p. case array_index (fst p) of None \<Rightarrow> False | Some i \<Rightarrow> i < n) result
            @ (name, g) # dropWhile (\<lambda>p. case array_index (fst p) of None \<Rightarrow> False | Some i \<Rightarrow> i < n) result)"

definition get_key :: "model \<Rightarrow> jsval \<Rightarrow> (string \<times> got) list \<Rightarrow> (string \<times> got) list" where
  "get_key m k result =
     (let name = to_string k in
      if typeof_member m name = ''object''
      then put_got name (Copied (extend1 (lookup (attributes m) name))) result
      else put_got name
             (case read (attributes m) name of Data v \<Rightarrow> Stored v | Inherited n \<Rightarrow> Member n) result)"

datatype get_ret =
    GAttributes props
  | GMap "(string \<times> got) list"
  | GValue jsval
  | GMember string

definition Model_get :: "jsval \<Rightarrow> model \<Rightarrow> get_ret" where
  "Model_get key m =
     (if \<not> truthy key then GAttributes (attributes m)
      else case key of
        JArr ks \<Rightarrow> GMap (fold (get_key m) ks [])
      | _ \<Rightarrow> (case read (attributes m) (to_string key) of
                Data v \<Rightarrow> GValue v
              | Inherited n \<Rightarrow> GMember n))"

subsection \<open>Model.set\<close>

text \<open>\<^verbatim>\<open>set()\<close> without arguments triggers \<^verbatim>\<open>error\<close> and returns
  false.\<close>

definition Model_set_noargs :: "model \<Rightarrow> model" where
  "Model_set_noargs m = Model_trigger ''error'' MEvError m"

text \<open>
  \<^verbatim>\<open>!isEqual(localProp, v)\<close> for a local value read from a plain object. A
  function of \<^verbatim>\<open>Object.prototype\<close> is equal to no data value. Under the name
  \<^verbatim>\<open>__proto__\<close> the value read is \<^verbatim>\<open>Object.prototype\<close> itself, an
  object without enumerable properties whose constructor is \<^verbatim>\<open>Object\<close>, and
  \<^verbatim>\<open>eq\<close> finds it equal to the empty plain object and to nothing else.
\<close>

definition differs :: "slot \<Rightarrow> jsval \<Rightarrow> bool" where
  "differs local v =
     (case local of
        Data a \<Rightarrow> \<not> isEqual a v
      | Inherited name \<Rightarrow> \<not> (name = ''__proto__'' \<and> v = JObj []))"

text \<open>The loop over the own keys of the patch: an entry whose value differs from the
  local value goes into \<^verbatim>\<open>changedAttributes\<close>. The local value is the model's
  own member when internal (the patches that name a member that is not plain data are
  set apart in \<open>Model_set\<close>), and \<^verbatim>\<open>model.attributes[k]\<close> otherwise.\<close>

definition record_change :: "bool \<Rightarrow> string \<times> jsval \<Rightarrow> model \<Rightarrow> model" where
  "record_change internal kv m =
     (let changed = (if internal then \<not> isEqual (lookup (data_members m) (fst kv)) (snd kv)
                     else differs (read (attributes m) (fst kv)) (snd kv)) in
      if changed
      then m\<lparr>changedAttributes := store (fst kv) (snd kv) (changedAttributes m)\<rparr>
      else m)"

text \<open>Whether the loop replaces the prototype of \<^verbatim>\<open>changedAttributes\<close>: some
  entry named \<^verbatim>\<open>__proto__\<close> differs from the local value and holds an object or
  null.\<close>

definition patch_sets_prototype :: "props \<Rightarrow> model \<Rightarrow> bool" where
  "patch_sets_prototype entries m =
     list_ex (\<lambda>kv. sets_prototype (changedAttributes m) (fst kv) (snd kv)
                   \<and> differs (read (attributes m) (fst kv)) (snd kv)) entries"

text \<open>The end of \<^verbatim>\<open>set\<close>: the timestamp when \<^verbatim>\<open>changedAttributes\<close> has a
  key, the change event unless silent, the dirty flag and the dirty event.\<close>

definition set_finish :: "bool \<Rightarrow> env \<Rightarrow> model \<Rightarrow> model" where
  "set_finish silent e m =
     (let m = (if length (changedAttributes m) \<noteq> 0 then m\<lparr>modified := clock e\<rparr> else m);
          m = (if \<not> silent then Model_trigger ''change'' (MEvChange (modified m)) m else m);
          m = m\<lparr>m_dirty := True\<rparr>
      in Model_trigger ''dirty'' MEvDirty m)"

text \<open>
  In the internal mapping form \<^verbatim>\<open>model = $.extend(true, {}, model, key)\<close> rebinds
  the local variable to a new plain object, and the rest of \<^verbatim>\<open>set\<close> works on
  that object and returns it. The copy has the model's members, deep-copied where they
  are plain data, with the patch merged over them: \<open>cp_members\<close> are its data members,
  by name; the opaque members and the functions are the model's own. Its event record
  starts empty. The handlers run with the copy as \<^verbatim>\<open>this\<close>.
\<close>

record copy =
  cp_members :: props
  cp_changedAttributes :: props
  cp_attributes :: props
  cp_created :: nat
  cp_modified :: nat
  cp_events :: "(string \<times> mhandler list) list"
  cp_fired :: "mevent list"

fun run_mhandler_copy :: "mhandler \<Rightarrow> copy \<Rightarrow> copy" where
  "run_mhandler_copy MOnDirty cp = cp\<lparr>cp_members := assign ''_hasBeenRendered'' (JBool False) (cp_members cp)\<rparr>"
| "run_mhandler_copy MOnChange cp = cp"
| "run_mhandler_copy MOnRender cp = cp"
| "run_mhandler_copy MOnError cp = cp"

definition copy_trigger :: "string \<Rightarrow> mevent \<Rightarrow> copy \<Rightarrow> copy" where
  "copy_trigger name ev cp =
     fold run_mhandler_copy (handlers_of name (cp_events cp)) (cp\<lparr>cp_fired := cp_fired cp @ [ev]\<rparr>)"

definition copy_finish :: "bool \<Rightarrow> env \<Rightarrow> copy \<Rightarrow> copy" where
  "copy_finish silent e cp =
     (let cp = (if length (cp_changedAttributes cp) \<noteq> 0 then cp\<lparr>cp_modified := clock e\<rparr> else cp);
          cp = (if \<not> silent then copy_trigger ''change'' (MEvChange (cp_modified cp)) cp else cp);
          cp = cp\<lparr>cp_members := assign ''_dirty'' (JBool True) (cp_members cp)\<rparr>
      in copy_trigger ''dirty'' MEvDirty cp)"

datatype mset_ret = MRetThis | MRetCopy copy

text \<open>
  \<^verbatim>\<open>set(key, value, internal, silent)\<close>. When the key is an object the arguments
  shift: \<^verbatim>\<open>silent = internal; internal = value\<close>. The result is what
  \<^verbatim>\<open>set\<close> returns and the model after the call.

  The loop calls \<^verbatim>\<open>key.hasOwnProperty(k)\<close> on the patch itself: a patch that owns
  a property \<^verbatim>\<open>hasOwnProperty\<close> holds a data value there, the call of that value
  throws a TypeError at the first key, and nothing has been written by then.

  The embedding has no image (\<open>Untyped\<close>) for a call that replaces the prototype of
  \<^verbatim>\<open>changedAttributes\<close> or of the attributes, for an internal patch that names a
  member kept in a field, an opaque member or a function, and for an internal single key
  that names any built-in member.
\<close>

definition Model_set :: "jsval \<Rightarrow> jsval \<Rightarrow> bool \<Rightarrow> bool \<Rightarrow> env \<Rightarrow> model \<Rightarrow> failure + (mset_ret \<times> model)" where
  "Model_set key val internal silent e m =
     (if typeof key = ''object'' then
        (let silent = internal; internal = truthy val; entries = own_entries key in
         if ''hasOwnProperty'' \<in> set (map fst entries) then Inl TypeError
         else if internal then
           (if list_ex (\<lambda>k. k \<in> set (field_members @ opaque_members @ function_members)) (map fst entries)
            then Inl Untyped
            else
              let m1 = fold (record_change True) entries m;
                  cp = \<lparr> cp_members = extend2 (JObj (data_members m1)) key,
                         cp_changedAttributes = extend1 (JObj (changedAttributes m1)),
                         cp_attributes = extend1 (JObj (attributes m1)),
                         cp_created = created m1, cp_modified = modified m1,
                         cp_events = m_events m1, cp_fired = [] \<rparr>
              in Inr (MRetCopy (copy_finish silent e cp), m1))
         else
           (if patch_sets_prototype entries m then Inl Untyped
            else
              let m1 = fold (record_change False) entries m;
                  m2 = m1\<lparr>attributes := extend2 (JObj (attributes m1)) key\<rparr>
              in Inr (MRetThis, set_finish silent e m2)))
      else
        (let name = to_string key in
         if internal \<and> name \<in> set (scalar_members @ field_members @ opaque_members @ function_members)
         then Inl Untyped
         else if \<not> internal \<and> (sets_prototype (attributes m) name val
                                  \<or> sets_prototype (changedAttributes m) name val)
         then Inl Untyped
         else
           let m1 = (if internal then m\<lparr>internals := assign name val (internals m)\<rparr>
                     else m\<lparr>attributes := store name val (attributes m)\<rparr>);
               m2 = m1\<lparr>changedAttributes := store name val (changedAttributes m1)\<rparr>
           in Inr (MRetThis, set_finish silent e m2)))"

section \<open>Collection\<close>

subsection \<open>Ordering\<close>

text \<open>
  \<^verbatim>\<open>a < b\<close>: both operands are made primitive (an array or object through
  \<^verbatim>\<open>String\<close>); two strings compare by their characters; otherwise both become
  numbers and the comparison is false when either is \<^verbatim>\<open>NaN\<close>. As a number,
  undefined is \<^verbatim>\<open>NaN\<close>, null is 0, a boolean is 0 or 1, and a string is read
  without its surrounding white space: empty it is 0, a run of decimal digits with an
  optional sign is its value, and anything else is taken as \<^verbatim>\<open>NaN\<close> (a string
  that writes a number in another notation has no image among the integers).
\<close>

fun str_lt :: "string \<Rightarrow> string \<Rightarrow> bool" where
  "str_lt [] [] = False"
| "str_lt [] (y # ys) = True"
| "str_lt (x # xs) [] = False"
| "str_lt (x # xs) (y # ys) =
     (if (of_char x :: nat) < of_char y then True
      else if (of_char x :: nat) = of_char y then str_lt xs ys
      else False)"

definition all_digits :: "string \<Rightarrow> bool" where
  "all_digits s = (s \<noteq> [] \<and> list_all (\<lambda>c. digit_of c \<noteq> None) s)"

definition str_to_number :: "string \<Rightarrow> int option" where
  "str_to_number s =
     (let t = rev (dropWhile is_space (rev (dropWhile is_space s))) in
      case t of
        [] \<Rightarrow> Some 0
      | c # cs \<Rightarrow>
          if c = CHR ''-'' \<and> all_digits cs then map_option (\<lambda>n. - int n) (digits_prefix None cs)
          else if c = CHR ''+'' \<and> all_digits cs then map_option int (digits_prefix None cs)
          else if all_digits t then map_option int (digits_prefix None t)
          else None)"

fun to_primitive :: "jsval \<Rightarrow> jsval" where
  "to_primitive (JArr xs) = JStr (to_string (JArr xs))"
| "to_primitive (JObj ps) = JStr (to_string (JObj ps))"
| "to_primitive v = v"

fun to_number :: "jsval \<Rightarrow> int option" where
  "to_number JUndefined = None"
| "to_number JNull = Some 0"
| "to_number (JBool b) = Some (if b then 1 else 0)"
| "to_number (JNum n) = Some n"
| "to_number (JStr s) = str_to_number s"
| "to_number v = str_to_number (to_string v)"

definition js_lt :: "jsval \<Rightarrow> jsval \<Rightarrow> bool" where
  "js_lt a b =
     (case (to_primitive a, to_primitive b) of
        (JStr x, JStr y) \<Rightarrow> str_lt x y
      | (x, y) \<Rightarrow>
          (case (to_number x, to_number y) of
             (Some i, Some j) \<Rightarrow> i < j
           | _ \<Rightarrow> False))"

text \<open>The default comparator of the constructor: larger keys first.\<close>

definition default_comparator :: "model \<Rightarrow> model \<Rightarrow> int" where
  "default_comparator a b = (if js_lt (key_of a) (key_of b) then 1 else - 1)"

text \<open>
  \<^verbatim>\<open>Array.prototype.sort(cmp)\<close>. The language fixes the result for a consistent
  comparator and leaves the order open otherwise (the default comparator is inconsistent
  on two equal keys); in every case the result is a rearrangement of the array. The
  embedding sorts by insertion, placing an element before the first one it does not
  compare greater than.
\<close>

fun insert_by :: "('a \<Rightarrow> 'a \<Rightarrow> int) \<Rightarrow> 'a \<Rightarrow> 'a list \<Rightarrow> 'a list" where
  "insert_by cmp x [] = [x]"
| "insert_by cmp x (y # ys) = (if cmp x y \<le> 0 then x # y # ys else y # insert_by cmp x ys)"

definition js_sort :: "('a \<Rightarrow> 'a \<Rightarrow> int) \<Rightarrow> 'a list \<Rightarrow> 'a list" where
  "js_sort cmp xs = foldr (insert_by cmp) xs []"

subsection \<open>State and events\<close>

datatype chandler = OnSort | OnBeforeRender | OnRender | OnChange | OnClear | OnDirty | OnError

text \<open>The events triggered on a collection, with their payload. The removed list of a
  change event holds what \<^verbatim>\<open>remove\<close> returned for each item, which is the array
  \<^verbatim>\<open>splice\<close> produced.\<close>

datatype cevent =
    EvInitialized
  | EvSort
  | EvDirty
  | EvChange "model list" "model list list" "model list"
  | EvClear "model list"
  | EvError string jsval

text \<open>
  \<open>c_dirty\<close> is the property \<^verbatim>\<open>_dirty\<close>. \<open>c_isDirty\<close> is the property
  \<^verbatim>\<open>_isDirty\<close>, which \<^verbatim>\<open>isDirty()\<close> returns and which no statement of
  the file assigns. \<open>template_attributes\<close> is \<^verbatim>\<open>model.attributes\<close> of the model
  base handed to the constructor. \<open>uid\<close> is the counter behind \<^verbatim>\<open>uid()\<close> (a
  variable of the module, followed here through one collection), \<open>next_ref\<close> the number
  of model objects allocated, and \<open>c_fired\<close> the events triggered, oldest first.
\<close>

record collection =
  firstSet :: bool
  c_hasBeenRendered :: bool
  isSorted :: bool
  c_dirty :: bool
  c_isDirty :: jsval
  isSaving :: bool
  c_length :: nat
  template_attributes :: jsval
  items :: "model list"
  c_events :: "(string \<times> chandler list) list"
  sortComparator :: "model \<Rightarrow> model \<Rightarrow> int"
  uid :: nat
  next_ref :: nat
  c_fired :: "cevent list"

type_synonym 'a result = "(failure \<times> collection) + ('a \<times> collection)"

definition and_then :: "'a result \<Rightarrow> ('a \<Rightarrow> collection \<Rightarrow> 'b result) \<Rightarrow> 'b result" where
  "and_then r f = (case r of Inl x \<Rightarrow> Inl x | Inr (a, c) \<Rightarrow> f a c)"

text \<open>The handlers of a collection log. \<^verbatim>\<open>onClear\<close> also resets the length.
  \<^verbatim>\<open>onError\<close> calls \<^verbatim>\<open>this.error\<close>, which neither the constructor nor the
  prototype defines: the call throws a TypeError.\<close>

fun run_chandler :: "chandler \<Rightarrow> collection \<Rightarrow> unit result" where
  "run_chandler OnClear c = Inr ((), c\<lparr>c_length := 0\<rparr>)"
| "run_chandler OnError c = Inl (TypeError, c)"
| "run_chandler h c = Inr ((), c)"

fun run_chandlers :: "chandler list \<Rightarrow> collection \<Rightarrow> unit result" where
  "run_chandlers [] c = Inr ((), c)"
| "run_chandlers (h # hs) c = and_then (run_chandler h c) (\<lambda>_. run_chandlers hs)"

definition trigger :: "string \<Rightarrow> cevent \<Rightarrow> collection \<Rightarrow> unit result" where
  "trigger name ev c =
     run_chandlers (handlers_of name (c_events c)) (c\<lparr>c_fired := c_fired c @ [ev]\<rparr>)"

definition Collection_on :: "string \<Rightarrow> chandler \<Rightarrow> collection \<Rightarrow> collection" where
  "Collection_on name h c = c\<lparr>c_events := on_event name h (c_events c)\<rparr>"

definition Collection_off :: "string \<Rightarrow> chandler \<Rightarrow> collection \<Rightarrow> collection" where
  "Collection_off name h c = c\<lparr>c_events := off_event name h (c_events c)\<rparr>"

text \<open>\<^verbatim>\<open>new Collection(opt, model)\<close>, for an \<^verbatim>\<open>opt\<close> without template
  and without \<^verbatim>\<open>functions\<close>; the argument is \<^verbatim>\<open>model.attributes\<close>.
  \<^verbatim>\<open>_initialize\<close> registers the seven handlers and restarts the running id.\<close>

definition Collection_new :: "jsval \<Rightarrow> collection" where
  "Collection_new tmpl =
     (let c = \<lparr> firstSet = True, c_hasBeenRendered = False, isSorted = True, c_dirty = False,
                c_isDirty = JUndefined, isSaving = False, c_length = 0,
                template_attributes = tmpl, items = [], c_events = [],
                sortComparator = default_comparator, uid = 0, next_ref = 0, c_fired = [] \<rparr>;
          c = Collection_on ''sort'' OnSort c;
          c = Collection_on ''beforeRender'' OnBeforeRender c;
          c = Collection_on ''render'' OnRender c;
          c = Collection_on ''change'' OnChange c;
          c = Collection_on ''clear'' OnClear c;
          c = Collection_on ''dirty'' OnDirty c;
          c = Collection_on ''error'' OnError c;
          c = c\<lparr>uid := 0\<rparr>
      in c\<lparr>c_fired := c_fired c @ [EvInitialized]\<rparr>)"

definition isDirty :: "collection \<Rightarrow> jsval" where
  "isDirty c = c_isDirty c"

definition Collection_toJSON_items :: "collection \<Rightarrow> jsval" where
  "Collection_toJSON_items c = JArr (map Model_toJSON (items c))"

definition Collection_clean :: "bool \<Rightarrow> collection \<Rightarrow> collection" where
  "Collection_clean deep c =
     (let c = c\<lparr>c_dirty := False\<rparr> in
      if deep then c\<lparr>items := map Model_clean (items c)\<rparr> else c)"

subsection \<open>sort, add, remove\<close>

text \<open>\<^verbatim>\<open>sort(options, fn)\<close>: \<open>silent\<close> is \<^verbatim>\<open>options.silent\<close> and \<open>fn\<close>
  the one-off comparator, if any.\<close>

definition Collection_sort :: "bool \<Rightarrow> (model \<Rightarrow> model \<Rightarrow> int) option \<Rightarrow> collection \<Rightarrow> unit result" where
  "Collection_sort silent fn c =
     (let c = c\<lparr>items := js_sort (case fn of Some f \<Rightarrow> f | None \<Rightarrow> sortComparator c) (items c)\<rparr> in
      and_then (if \<not> silent then trigger ''sort'' EvSort c else Inr ((), c))
        (\<lambda>_ c. Inr ((), c\<lparr>isSorted := True\<rparr>)))"

record add_options =
  add_silent :: bool
  noSort :: bool
  returnItems :: bool

datatype add_ret = AddedItems "model list" | AddThis

text \<open>The loop of \<^verbatim>\<open>add\<close>: one new model per element, its attributes the
  template's merged with the element, appended to the items and to the added list.\<close>

fun add_each :: "env \<Rightarrow> jsval list \<Rightarrow> collection \<Rightarrow> model list \<times> collection" where
  "add_each e [] c = ([], c)"
| "add_each e (itemData # rest) c =
     (let (newItem, u) = Model_new e (next_ref c) (extend2 (template_attributes c) itemData) (uid c);
          c = c\<lparr>items := items c @ [newItem], uid := u, next_ref := Suc (next_ref c)\<rparr>;
          (added, c) = add_each e rest c
      in (newItem # added, c))"

definition Collection_add :: "jsval \<Rightarrow> add_options \<Rightarrow> env \<Rightarrow> collection \<Rightarrow> add_ret result" where
  "Collection_add itemsArg options e c =
     (let arg = (if truthy itemsArg then itemsArg else JArr []);
          elems = (case arg of JArr xs \<Rightarrow> xs | v \<Rightarrow> [v]);
          (addedItems, c) = add_each e elems c;
          c = c\<lparr>c_hasBeenRendered := False\<rparr>;
          c = c\<lparr>c_length := length (items c)\<rparr>
      in and_then (if \<not> noSort options then Collection_sort False None c else Inr ((), c))
           (\<lambda>_ c. and_then
              (if addedItems \<noteq> [] then
                 and_then (trigger ''dirty'' EvDirty (c\<lparr>c_dirty := True\<rparr>))
                   (\<lambda>_ c. if \<not> add_silent options then trigger ''change'' (EvChange addedItems [] []) c
                           else Inr ((), c))
               else Inr ((), c))
              (\<lambda>_ c. let c = c\<lparr>firstSet := False\<rparr> in
                 Inr (if returnItems options then AddedItems addedItems else AddThis, c))))"

text \<open>The identifier handed to \<^verbatim>\<open>remove\<close>: a plain value, or a model.\<close>

datatype ident = IdVal jsval | IdModel model

record remove_options =
  remove_silent :: bool
  returnItem :: bool

datatype remove_ret = RemoveFalse | RemovedItems "model list" | RemoveThis

text \<open>\<^verbatim>\<open>xs.splice(i, 1)\<close> for the index \<^verbatim>\<open>indexOf\<close> gave: the removed
  elements and what is left. At \<open>-1\<close> the one element removed is the last.\<close>

definition splice1 :: "nat option \<Rightarrow> 'a list \<Rightarrow> 'a list \<times> 'a list" where
  "splice1 idx xs =
     (case idx of
        None \<Rightarrow> (if xs = [] then ([], []) else ([last xs], butlast xs))
      | Some i \<Rightarrow> (take 1 (drop i xs), take i xs @ drop (Suc i) xs))"

definition Collection_remove :: "ident \<Rightarrow> remove_options \<Rightarrow> collection \<Rightarrow> remove_ret result" where
  "Collection_remove ident options c =
     (let parsed = (case ident of IdVal v \<Rightarrow> parseInt v | IdModel m \<Rightarrow> None);
          found =
            (case parsed of
               Some n \<Rightarrow> Some (JNum n)
             | None \<Rightarrow> (case ident of IdModel m \<Rightarrow> Some (key_of m) | IdVal v \<Rightarrow> None))
      in case found of
           None \<Rightarrow>
             and_then
               (trigger ''error''
                  (EvError ''Missing or unrecognized data passed to Collection.remove''
                     (case ident of IdVal v \<Rightarrow> (if truthy v then v else JNull) | IdModel m \<Rightarrow> JNull)) c)
               (\<lambda>_ c. Inr (RemoveFalse, c))
         | Some wanted \<Rightarrow>
             let itemIndex = indexOf (map key_of (items c)) wanted;
                 (removedModel, rest) = splice1 itemIndex (items c);
                 c = c\<lparr>items := rest\<rparr>;
                 c = c\<lparr>c_length := length (items c)\<rparr>;
                 c = c\<lparr>c_hasBeenRendered := False, c_dirty := True\<rparr>
             in and_then (trigger ''dirty'' EvDirty c)
                  (\<lambda>_ c. and_then
                     (if \<not> remove_silent options then trigger ''change'' (EvChange [] [removedModel] []) c
                      else Inr ((), c))
                     (\<lambda>_ c. Inr (if returnItem options then RemovedItems removedModel else RemoveThis, c))))"


subsection \<open>Collection.set\<close>

text \<open>\<^verbatim>\<open>items.map(function(x) { return x[field]; })\<close>, which throws at the first
  element that is undefined or null.\<close>

fun map_field :: "string \<Rightarrow> jsval list \<Rightarrow> failure + jsval list" where
  "map_field field [] = Inr []"
| "map_field field (x # xs) =
     (case get_prop x field of
        Inl f \<Rightarrow> Inl f
      | Inr v \<Rightarrow> (case map_field field xs of Inl f \<Rightarrow> Inl f | Inr vs \<Rightarrow> Inr (v # vs)))"

text \<open>The first loop: an item whose key is at no position of the snapshot's keys is to
  be removed (and the sorted flag is dropped), any other is to be changed. The result is
  \<open>(toBeRemoved, toBeChanged)\<close>.\<close>

fun classify :: "jsval list \<Rightarrow> model list \<Rightarrow> collection \<Rightarrow> (model list \<times> model list) result" where
  "classify snap [] c = Inr (([], []), c)"
| "classify snap (oldItem # rest) c =
     (case map_field (uniqueField oldItem) snap of
        Inl f \<Rightarrow> Inl (f, c)
      | Inr ks \<Rightarrow>
          (case indexOf ks (key_of oldItem) of
             None \<Rightarrow>
               and_then (classify snap rest (c\<lparr>isSorted := False\<rparr>))
                 (\<lambda>(toBeRemoved, toBeChanged) c. Inr ((oldItem # toBeRemoved, toBeChanged), c))
           | Some i \<Rightarrow>
               and_then (classify snap rest c)
                 (\<lambda>(toBeRemoved, toBeChanged) c. Inr ((toBeRemoved, oldItem # toBeChanged), c))))"

text \<open>The second loop: each item to be removed goes through \<^verbatim>\<open>remove\<close>, silently,
  and what \<^verbatim>\<open>remove\<close> returns is pushed on the removed list.\<close>

fun remove_each :: "model list \<Rightarrow> collection \<Rightarrow> (model list list) result" where
  "remove_each [] c = Inr ([], c)"
| "remove_each (item # rest) c =
     and_then (Collection_remove (IdModel item) \<lparr>remove_silent = True, returnItem = True\<rparr> c)
       (\<lambda>r c. and_then (remove_each rest c)
          (\<lambda>removedItems c. Inr ((case r of RemovedItems xs \<Rightarrow> xs | _ \<Rightarrow> []) # removedItems, c)))"

text \<open>A model is an object: after \<^verbatim>\<open>oldItem.set(...)\<close> every list that holds
  the object holds its new state.\<close>

definition replace_ref :: "model \<Rightarrow> model list \<Rightarrow> model list" where
  "replace_ref m xs = map (\<lambda>x. if m_ref x = m_ref m then m else x) xs"

definition deref :: "model list \<Rightarrow> model \<Rightarrow> model" where
  "deref touched m = (case find (\<lambda>x. m_ref x = m_ref m) touched of Some x \<Rightarrow> x | None \<Rightarrow> m)"

text \<open>The third loop: the element matching the item's key is spliced out of the
  snapshot and applied with \<^verbatim>\<open>oldItem.set(newItem, false, true)\<close>; the item is
  pushed on the changed list when what \<^verbatim>\<open>set\<close> returned has a key in its
  \<^verbatim>\<open>changedAttributes\<close>. The result is the rest of the snapshot, the changed list,
  and the new states of all items that went through \<^verbatim>\<open>set\<close>.\<close>

fun change_each :: "env \<Rightarrow> model list \<Rightarrow> jsval list \<Rightarrow> collection \<Rightarrow> (jsval list \<times> model list \<times> model list) result" where
  "change_each e [] snap c = Inr ((snap, [], []), c)"
| "change_each e (oldItem # rest) snap c =
     (case map_field (uniqueField oldItem) snap of
        Inl f \<Rightarrow> Inl (f, c)
      | Inr ks \<Rightarrow>
          let itemIdx = indexOf ks (key_of oldItem);
              (taken, snap') = splice1 itemIdx snap;
              newItem = (case taken of [] \<Rightarrow> JUndefined | x # _ \<Rightarrow> x)
          in (case Model_set newItem (JBool False) True False e oldItem of
                Inl f \<Rightarrow> Inl (f, c)
              | Inr (ret, oldItem') \<Rightarrow>
                  (let changed =
                         (case ret of MRetThis \<Rightarrow> changedAttributes oldItem'
                          | MRetCopy cp \<Rightarrow> cp_changedAttributes cp);
                       c = c\<lparr>items := replace_ref oldItem' (items c)\<rparr>;
                       isChanged = (length changed \<noteq> 0);
                       c = (if isChanged then c\<lparr>isSorted := False\<rparr> else c)
                   in and_then (change_each e rest snap' c)
                        (\<lambda>(snap'', changedItems, touched) c.
                           Inr ((snap'', (if isChanged then [oldItem'] else []) @ changedItems,
                                 oldItem' # touched), c)))))"

text \<open>What is left of the snapshot after the third loop is added, silently and
  without sorting; the result is the added list.\<close>

definition add_remaining :: "jsval list \<Rightarrow> env \<Rightarrow> collection \<Rightarrow> (model list) result" where
  "add_remaining rest e c =
     (if rest \<noteq> [] then
        and_then
          (Collection_add (JArr rest) \<lparr>add_silent = True, noSort = True, returnItems = True\<rparr> e
             (c\<lparr>isSorted := False\<rparr>))
          (\<lambda>r c. Inr ((case r of AddedItems xs \<Rightarrow> xs | AddThis \<Rightarrow> []), c))
      else Inr ([], c))"

text \<open>The loops, the sort and the length: the result is
  \<open>(addedItems, removedItems, changedItems)\<close>.\<close>

definition reconcile :: "jsval list \<Rightarrow> env \<Rightarrow> collection \<Rightarrow> (model list \<times> model list list \<times> model list) result" where
  "reconcile snap e c =
     and_then (classify snap (items c) c) (\<lambda>(toBeRemoved, toBeChanged) c.
     and_then (remove_each toBeRemoved c) (\<lambda>removedItems c.
     and_then (change_each e toBeChanged snap c) (\<lambda>(snap', changedItems, touched) c.
     and_then (add_remaining snap' e c) (\<lambda>addedItems c.
     and_then (Collection_sort False None c) (\<lambda>_ c.
       Inr ((addedItems, map (map (deref touched)) removedItems, changedItems),
            c\<lparr>c_length := length (items c)\<rparr>))))))"

record set_options =
  set_silent :: bool

datatype set_ret = SetFalse | SetThis

definition Collection_set :: "jsval \<Rightarrow> set_options \<Rightarrow> env \<Rightarrow> collection \<Rightarrow> set_ret result" where
  "Collection_set itemsArg options e c =
     (case itemsArg of
        JArr snap \<Rightarrow>
          and_then (reconcile snap e c) (\<lambda>(addedItems, removedItems, changedItems) c.
          and_then
            (if 0 < length addedItems \<or> 0 < length removedItems \<or> 0 < length changedItems then
               and_then (trigger ''dirty'' EvDirty (c\<lparr>c_hasBeenRendered := False, c_dirty := True\<rparr>))
                 (\<lambda>_ c. if \<not> set_silent options
                         then trigger ''change'' (EvChange addedItems removedItems changedItems) c
                         else Inr ((), c))
             else Inr ((), c))
            (\<lambda>_ c. Inr (SetThis, c\<lparr>firstSet := False\<rparr>)))
      | v \<Rightarrow>
          and_then
            (trigger ''error''
               (EvError ''Collection.set() must receive an array of items as the first argument''
                  (if truthy v then v else JNull)) c)
            (\<lambda>_ c. Inr (SetFalse, c)))"


section \<open>Predicates of the theorems\<close>

text \<open>A primitive value: identical to itself and to nothing else.\<close>

fun is_prim :: "jsval \<Rightarrow> bool" where
  "is_prim (JArr xs) = False"
| "is_prim (JObj ps) = False"
| "is_prim v = True"

text \<open>The entries of a patch whose value differs, for \<^verbatim>\<open>isEqual\<close>, from the
  own value the given properties hold under the same name.\<close>

definition differing :: "props \<Rightarrow> props \<Rightarrow> props" where
  "differing locals ps = filter (\<lambda>kv. \<not> isEqual (lookup locals (fst kv)) (snd kv)) ps"



text \<open>The key a snapshot element carries: \<^verbatim>\<open>x.id\<close>.\<close>

definition elt_key :: "jsval \<Rightarrow> jsval" where
  "elt_key x = (case get_prop x ''id'' of Inl f \<Rightarrow> JUndefined | Inr v \<Rightarrow> v)"






text \<open>A sequence of \<^verbatim>\<open>add\<close> and \<^verbatim>\<open>set\<close> calls on arrays, each at its
  own instant. A call is admissible when its elements are plain and carry pairwise
  distinct keys, which for \<^verbatim>\<open>add\<close> are not keys of the collection; a sequence
  is admissible when each call is, in the state the calls before leave.\<close>

datatype call = CallAdd "jsval list" add_options | CallSet "jsval list" set_options





section \<open>Example states\<close>

text \<open>The states the closed theorems below run the operations on.\<close>

definition env_at :: "nat \<Rightarrow> env" where
  "env_at t = \<lparr>clock = t, guid_of = (\<lambda>i. ''guid-'' @ nat_to_string i)\<rparr>"

definition loud :: add_options where
  "loud = \<lparr>add_silent = False, noSort = False, returnItems = False\<rparr>"

definition state_of :: "'a result \<Rightarrow> collection" where
  "state_of r = (case r of Inl (f, c) \<Rightarrow> c | Inr (a, c) \<Rightarrow> c)"

text \<open>\<^verbatim>\<open>c = new PVCollection({}, {attributes: {}}); c.add([{id: 1, name: "a"},
  {id: 2, name: "b"}])\<close>, at instant 5.\<close>

definition two_items :: collection where
  "two_items =
     state_of (Collection_add
       (JArr [JObj [(''id'', JNum 1), (''name'', JStr ''a'')], JObj [(''id'', JNum 2), (''name'', JStr ''b'')]])
       loud (env_at 5) (Collection_new (JObj [])))"

text \<open>The model of \<^verbatim>\<open>c.add([{id: 1, tags: {a: 1}}])\<close> on a new collection.\<close>

definition tagged :: model where
  "tagged =
     hd (items (state_of (Collection_add
       (JArr [JObj [(''id'', JNum 1), (''tags'', JObj [(''a'', JNum 1)])]])
       loud (env_at 5) (Collection_new (JObj [])))))"

text \<open>\<^verbatim>\<open>c.add([{id: 1, name: "a"}])\<close> at instant 5, then
  \<^verbatim>\<open>c.set([{id: 1, name: "b"}])\<close> at instant 7: one model, not cleaned.\<close>

definition renamed :: collection where
  "renamed =
     state_of (Collection_set (JArr [JObj [(''id'', JNum 1), (''name'', JStr ''b'')]])
       \<lparr>set_silent = False\<rparr> (env_at 7)
       (state_of (Collection_add (JArr [JObj [(''id'', JNum 1), (''name'', JStr ''a'')]])
          loud (env_at 5) (Collection_new (JObj [])))))"

text \<open>\<^verbatim>\<open>c.add([{id: 1, name: "a"}, {id: 2, name: "b"}, {id: 3, name: "c"}])\<close> on a
  new collection; the snapshot \<^verbatim>\<open>[{id: 2, name: "b2"}, {id: 3, name: "c"},
  {id: 4, name: "d"}]\<close>; and the collection after
  \<^verbatim>\<open>c.set([{id: 1, name: "a"}, {id: 2, name: "b2"}, {id: 3, name: "c"}])\<close>,
  in which the model with key 2 already holds the name \<^verbatim>\<open>"b2"\<close> and was not
  cleaned.\<close>

definition three_items :: collection where
  "three_items =
     state_of (Collection_add
       (JArr [JObj [(''id'', JNum 1), (''name'', JStr ''a'')], JObj [(''id'', JNum 2), (''name'', JStr ''b'')],
              JObj [(''id'', JNum 3), (''name'', JStr ''c'')]])
       loud (env_at 5) (Collection_new (JObj [])))"

definition snap234 :: "jsval list" where
  "snap234 = [JObj [(''id'', JNum 2), (''name'', JStr ''b2'')], JObj [(''id'', JNum 3), (''name'', JStr ''c'')],
              JObj [(''id'', JNum 4), (''name'', JStr ''d'')]]"

definition three_renamed :: collection where
  "three_renamed =
     state_of (Collection_set
       (JArr [JObj [(''id'', JNum 1), (''name'', JStr ''a'')], JObj [(''id'', JNum 2), (''name'', JStr ''b2'')],
              JObj [(''id'', JNum 3), (''name'', JStr ''c'')]])
       \<lparr>set_silent = False\<rparr> (env_at 7) three_items)"


section \<open>Defects of the program\<close>

text \<open>
  Claim C4 (dirty propagation): after an \<^verbatim>\<open>add\<close> that changes the membership,
  \<^verbatim>\<open>isDirty()\<close> should return true. The program sets \<^verbatim>\<open>_dirty\<close> and
  \<^verbatim>\<open>isDirty()\<close> returns \<^verbatim>\<open>_isDirty\<close>: after
  \<^verbatim>\<open>add([{id: 1}])\<close> on a new collection the item is there, \<^verbatim>\<open>_dirty\<close> is
  true, and \<^verbatim>\<open>isDirty()\<close> is undefined.
\<close>

theorem isDirty_undefined_after_add:
  "(case Collection_add (JArr [JObj [(''id'', JNum 1)]]) loud (env_at 5) (Collection_new (JObj [])) of
      Inl x \<Rightarrow> False
    | Inr (r, c) \<Rightarrow>
        map key_of (items c) = [JNum 1] \<and> c_dirty c \<and> isDirty c = JUndefined \<and> \<not> truthy (isDirty c))"
  by code_simp

text \<open>
  Claim C6 (\<^verbatim>\<open>Collection.set\<close> on an argument that is not an array): the call
  should trigger \<^verbatim>\<open>error\<close>, return false and change nothing. On a collection as
  the constructor leaves it, \<^verbatim>\<open>set(null)\<close> triggers the event and changes neither
  the items nor the flags, but it does not return: the registered handler
  \<^verbatim>\<open>onError\<close> calls the undefined \<^verbatim>\<open>this.error\<close> and a TypeError
  leaves the call.
\<close>

theorem set_non_array_throws:
  "(case Collection_set JNull \<lparr>set_silent = False\<rparr> (env_at 9) two_items of
      Inl (f, c) \<Rightarrow>
        f = TypeError \<and> items c = items two_items \<and> c_length c = c_length two_items
        \<and> c_dirty c = c_dirty two_items \<and> c_hasBeenRendered c = c_hasBeenRendered two_items
        \<and> c_fired c = c_fired two_items
            @ [EvError ''Collection.set() must receive an array of items as the first argument'' JNull]
    | Inr x \<Rightarrow> False)"
  by code_simp

text \<open>
  Claim C7 (\<^verbatim>\<open>Collection.remove\<close> on a numeric identifier that matches no
  key): the call should trigger \<^verbatim>\<open>error\<close> and change nothing. On the collection
  with keys 2 and 1, \<^verbatim>\<open>remove(7)\<close> finds index \<open>-1\<close>, and
  \<^verbatim>\<open>splice(-1, 1)\<close> takes the last item out: the model with key 1 is gone, the
  collection is dirty, and the events are \<^verbatim>\<open>dirty\<close> and \<^verbatim>\<open>change\<close>,
  not \<^verbatim>\<open>error\<close>.
\<close>

theorem remove_unmatched_splices_last:
  "(case Collection_remove (IdVal (JNum 7)) \<lparr>remove_silent = False, returnItem = False\<rparr> two_items of
      Inl x \<Rightarrow> False
    | Inr (r, c) \<Rightarrow>
        r = RemoveThis \<and> map key_of (items two_items) = [JNum 2, JNum 1]
        \<and> map key_of (items c) = [JNum 2] \<and> c_length c = 1 \<and> c_dirty c
        \<and> c_fired c = c_fired two_items @ [EvDirty, EvChange [] [[last (items two_items)]] []])"
  by code_simp

text \<open>
  Claim C8 (the key of a model after construction is truthy): the constructor replaces
  an absent or falsy \<^verbatim>\<open>id\<close> by \<^verbatim>\<open>uid()\<close>, and the first value of
  \<^verbatim>\<open>uid()\<close> is 0, which is falsy: after \<^verbatim>\<open>add({name: "a"})\<close> on a new
  collection the key of the model is 0.
\<close>

theorem first_generated_id_is_falsy:
  "(case Collection_add (JObj [(''name'', JStr ''a'')]) loud (env_at 5) (Collection_new (JObj [])) of
      Inl x \<Rightarrow> False
    | Inr (r, c) \<Rightarrow>
        map key_of (items c) = [JNum 0] \<and> map (\<lambda>m. truthy (key_of m)) (items c) = [False])"
  by code_simp

text \<open>
  Claim C9 (\<^verbatim>\<open>Model.get\<close> with an array of keys copies a structured value and
  yields undefined for an unknown key): the test is on \<^verbatim>\<open>typeof model[k]\<close>, the
  model's own member, not on the attribute. For the model with attributes
  \<^verbatim>\<open>{id: 1, tags: {a: 1}}\<close>, \<^verbatim>\<open>get(["tags", "collection"])\<close> returns the
  stored object of \<^verbatim>\<open>tags\<close> itself, and a new empty object for
  \<^verbatim>\<open>collection\<close>, which is no attribute.
\<close>

theorem get_keys_returns_stored_object:
  "attributes tagged = [(''id'', JNum 1), (''tags'', JObj [(''a'', JNum 1)])] \<and>
   Model_get (JArr [JStr ''tags'', JStr ''collection'']) tagged
     = GMap [(''tags'', Stored (JObj [(''a'', JNum 1)])), (''collection'', Copied [])]"
  by code_simp

text \<open>
  Claim C5 (change tracking of \<^verbatim>\<open>Model.set\<close>): the timestamp should advance
  exactly when an attribute changes in the call; the source says so itself, before the
  test (\<^verbatim>\<open>check if anything actually changed and change timestamp\<close>). The test is
  on \<^verbatim>\<open>changedAttributes\<close> of the model, which \<^verbatim>\<open>set\<close> never empties
  (the local array \<^verbatim>\<open>changedAttributes\<close>, meant for the changes of the call, is
  never filled). After \<^verbatim>\<open>set({name: "z"})\<close> at instant 7 on the model
  \<^verbatim>\<open>{id: 1, name: "a"}\<close>, the same call at instant 9 finds the attribute equal,
  writes nothing, and advances the timestamp from 7 to 9.
\<close>

theorem set_stamps_without_change:
  "(case Model_set (JObj [(''name'', JStr ''z'')]) JUndefined False False (env_at 7) (last (items two_items)) of
      Inl f \<Rightarrow> False
    | Inr (r1, m1) \<Rightarrow>
        (case Model_set (JObj [(''name'', JStr ''z'')]) JUndefined False False (env_at 9) m1 of
           Inl f \<Rightarrow> False
         | Inr (r2, m2) \<Rightarrow>
             attributes m1 = [(''id'', JNum 1), (''name'', JStr ''z'')]
             \<and> isEqual (lookup (attributes m1) ''name'') (JStr ''z'')
             \<and> changedAttributes m1 = [(''name'', JStr ''z'')]
             \<and> attributes m2 = attributes m1 \<and> changedAttributes m2 = changedAttributes m1
             \<and> modified m1 = 7 \<and> modified m2 = 9))"
  by code_simp

text \<open>
  The single key form records and stamps without comparing at all:
  \<^verbatim>\<open>set("name", "a")\<close> on the clean model whose name is already \<^verbatim>\<open>"a"\<close>
  puts the entry into \<^verbatim>\<open>changedAttributes\<close> and advances the timestamp.
\<close>

lemma Model_set_single_key_always_records:
  "(case Model_set (JStr ''name'') (JStr ''a'') False False (env_at 9) (last (items two_items)) of
      Inl f \<Rightarrow> False
    | Inr (r, m) \<Rightarrow>
        attributes (last (items two_items)) = [(''id'', JNum 1), (''name'', JStr ''a'')]
        \<and> attributes m = [(''id'', JNum 1), (''name'', JStr ''a'')]
        \<and> changedAttributes m = [(''name'', JStr ''a'')]
        \<and> modified (last (items two_items)) = 5 \<and> modified m = 9)"
  by code_simp

text \<open>
  Claim C1 (reconciliation completeness of \<^verbatim>\<open>Collection.set\<close>): with keys 1, 2, 3
  and a snapshot with keys 2, 3, 4, the removed list should hold the model with key 1,
  the added list a model with key 4, and the changed list those of the models with keys
  2 and 3 whose attributes differ from the matching element. In \<^verbatim>\<open>three_renamed\<close>
  the keys are 3, 2, 1 and the model with key 2 holds \<^verbatim>\<open>{id: 2, name: "b2"}\<close>,
  which is the element of the snapshot with key 2: no attribute differs, and none is
  changed by the call. The \<^verbatim>\<open>change\<close> event lists the model as changed all the
  same, because \<^verbatim>\<open>set\<close> tests \<^verbatim>\<open>changedAttributes\<close>, which still has the
  entry of the earlier call, where the source says \<^verbatim>\<open>if items changed\<close>. And the
  entry of the removed list is not the model with key 1 but the array that
  \<^verbatim>\<open>splice\<close> returned, which holds it: \<^verbatim>\<open>remove\<close> returns that array
  where its documentation says \<^verbatim>\<open>removed model\<close>.
\<close>

theorem set_lists_unchanged_model_as_changed:
  "(case Collection_set (JArr snap234) \<lparr>set_silent = False\<rparr> (env_at 9) three_renamed of
      Inl f \<Rightarrow> False
    | Inr (r, c) \<Rightarrow>
        map key_of (items three_renamed) = [JNum 3, JNum 2, JNum 1]
        \<and> map attributes (filter (\<lambda>m. key_of m = JNum 2) (items three_renamed))
            = [[(''id'', JNum 2), (''name'', JStr ''b2'')]]
        \<and> map attributes (filter (\<lambda>m. key_of m = JNum 2) (items c))
            = [[(''id'', JNum 2), (''name'', JStr ''b2'')]]
        \<and> map key_of (items c) = [JNum 4, JNum 3, JNum 2]
        \<and> (case last (c_fired c) of
              EvChange added removed changed \<Rightarrow>
                map key_of added = [JNum 4] \<and> map (map key_of) removed = [[JNum 1]]
                \<and> map key_of changed = [JNum 2]
            | _ \<Rightarrow> False))"
  by code_simp

text \<open>
  The example of the specification, on clean models: for the items
  \<^verbatim>\<open>[{id: 1, name: "a"}, {id: 2, name: "b"}]\<close>,
  \<^verbatim>\<open>set([{id: 2, name: "b2"}, {id: 3, name: "c"}])\<close> adds a model with key 3 and
  lists the model with key 2 as changed, and the one entry of the removed list is the
  array holding the model with key 1.
\<close>

lemma set_example_removed_entry_is_array:
  "(case Collection_set
          (JArr [JObj [(''id'', JNum 2), (''name'', JStr ''b2'')], JObj [(''id'', JNum 3), (''name'', JStr ''c'')]])
          \<lparr>set_silent = False\<rparr> (env_at 9) two_items of
      Inl f \<Rightarrow> False
    | Inr (r, c) \<Rightarrow>
        (case last (c_fired c) of
           EvChange added removed changed \<Rightarrow>
             removed = [[last (items two_items)]] \<and> map key_of added = [JNum 3]
             \<and> map attributes changed = [[(''id'', JNum 2), (''name'', JStr ''b2'')]]
         | _ \<Rightarrow> False)
        \<and> map key_of (items c) = [JNum 3, JNum 2])"
  by code_simp

text \<open>
  Claim C2 (idempotence of \<^verbatim>\<open>Collection.set\<close>): setting the collection's own
  snapshot should yield empty added, removed and changed lists and fire no
  \<^verbatim>\<open>change\<close>. In \<^verbatim>\<open>renamed\<close> the model holds
  \<^verbatim>\<open>{id: 1, name: "b"}\<close>, which is the snapshot \<^verbatim>\<open>toJSON().items\<close>, and
  was not cleaned after the \<^verbatim>\<open>set\<close> that renamed it. Setting the snapshot
  changes no attribute; the model is put on the changed list, the collection is marked
  dirty, and \<^verbatim>\<open>sort\<close>, \<^verbatim>\<open>dirty\<close> and \<^verbatim>\<open>change\<close> fire. The
  source announces the test as \<^verbatim>\<open>if items changed\<close>; what it tests is the
  \<^verbatim>\<open>changedAttributes\<close> that earlier calls left.
\<close>

theorem set_own_snapshot_fires_change:
  "(case Collection_set (Collection_toJSON_items renamed) \<lparr>set_silent = False\<rparr> (env_at 9) renamed of
      Inl f \<Rightarrow> False
    | Inr (r, c) \<Rightarrow>
        Collection_toJSON_items renamed = JArr [JObj [(''id'', JNum 1), (''name'', JStr ''b'')]]
        \<and> map attributes (items renamed) = [[(''id'', JNum 1), (''name'', JStr ''b'')]]
        \<and> map attributes (items c) = [[(''id'', JNum 1), (''name'', JStr ''b'')]]
        \<and> c_dirty c
        \<and> drop (length (c_fired renamed)) (c_fired c) = [EvSort, EvDirty, EvChange [] [] (items c)])"
  by code_simp


section \<open>Values and properties\<close>

lemma strict_eq_prim: "is_prim v \<Longrightarrow> strict_eq x v = (x = v)"
  by (cases x; cases v; auto)


lemma indexOf_Some: "is_prim v \<Longrightarrow> indexOf ks v = Some i \<Longrightarrow> i < length ks \<and> ks ! i = v \<and> v \<notin> set (take i ks)"
proof (induction ks arbitrary: i)
  case Nil
  then show ?case by simp
next
  case (Cons k ks)
  show ?case
  proof (cases "k = v")
    case True
    with Cons.prems show ?thesis by (simp add: strict_eq_prim)
  next
    case False
    with Cons.prems obtain j where j: "indexOf ks v = Some j" "i = Suc j"
      by (auto simp: strict_eq_prim)
    from Cons.IH [OF Cons.prems(1) j(1)] j(2) False show ?thesis by auto
  qed
qed


lemma map_of_insert_fresh:
  "k \<notin> fst ` set (xs @ ys) \<Longrightarrow> map_of (xs @ (k, v) # ys) = (map_of (xs @ ys))(k \<mapsto> v)"
  by (induction xs) (auto simp: fun_upd_twist)

lemma map_of_assign: "map_of (assign k v ps) = (map_of ps)(k \<mapsto> v)"
proof (cases "k \<in> set (map fst ps)")
  case True
  then show ?thesis by (simp add: assign_def update_conv')
next
  case False
  show ?thesis
  proof (cases "array_index k")
    case None
    have "map_of (ps @ (k, v) # []) = (map_of (ps @ []))(k \<mapsto> v)"
      using False by (intro map_of_insert_fresh) simp
    then show ?thesis using False None by (simp add: assign_def)
  next
    case (Some n)
    have "k \<notin> fst ` set (takeWhile (index_below n) ps @ dropWhile (index_below n) ps)"
      using False by simp
    then have "map_of (takeWhile (index_below n) ps @ (k, v) # dropWhile (index_below n) ps)
        = (map_of (takeWhile (index_below n) ps @ dropWhile (index_below n) ps))(k \<mapsto> v)"
      by (rule map_of_insert_fresh)
    then show ?thesis using False Some by (simp add: assign_def)
  qed
qed

lemma lookup_assign: "lookup (assign k v ps) n = (if n = k then v else lookup ps n)"
  by (simp add: lookup_def map_of_assign)



lemma filter_take_drop: "filter Q (takeWhile R ps) @ filter Q (dropWhile R ps) = filter Q ps"
  by (metis filter_append takeWhile_dropWhile_id)



lemma assign_not_Nil: "assign k v ps \<noteq> []"
proof (cases "k \<in> set (map fst ps)")
  case True
  then show ?thesis by (cases ps) (auto simp: assign_def)
next
  case False
  then show ?thesis by (cases "array_index k") (simp_all add: assign_def)
qed

lemma filter_update_other:
  "\<not> P k \<Longrightarrow> filter (\<lambda>p. P (fst p)) (AList.update k v ps) = filter (\<lambda>p. P (fst p)) ps"
  by (induction ps) auto

lemma filter_insert_middle:
  "\<not> Q x \<Longrightarrow> filter Q (takeWhile R ps @ x # dropWhile R ps) = filter Q ps"
proof -
  assume "\<not> Q x"
  then show ?thesis by (simp add: filter_take_drop)
qed

lemma filter_assign_other:
  "\<not> P k \<Longrightarrow> filter (\<lambda>p. P (fst p)) (assign k v ps) = filter (\<lambda>p. P (fst p)) ps"
proof (cases "k \<in> set (map fst ps)")
  case True
  assume "\<not> P k"
  then show ?thesis using True by (simp add: assign_def filter_update_other)
next
  case False
  assume n: "\<not> P k"
  show ?thesis
  proof (cases "array_index k")
    case None
    then show ?thesis using False n by (simp add: assign_def)
  next
    case (Some i)
    have "filter (\<lambda>p. P (fst p)) (takeWhile (index_below i) ps @ (k, v) # dropWhile (index_below i) ps)
        = filter (\<lambda>p. P (fst p)) ps"
      using n by (intro filter_insert_middle) simp
    then show ?thesis using False Some by (simp add: assign_def)
  qed
qed

lemma store_plain: "k \<noteq> ''__proto__'' \<Longrightarrow> store k v ps = assign k v ps"
  by (simp add: store_def)

section \<open>The parts of Model.set\<close>






lemma data_members_record_change: "data_members (record_change i kv m) = data_members m"
  by (simp add: data_members_def record_change_def Let_def)

lemma fold_record_change_internal:
  "list_all (\<lambda>k. k \<noteq> ''__proto__'') (map fst ps) \<Longrightarrow>
   fold (record_change True) ps m
     = m\<lparr>changedAttributes :=
           fold (\<lambda>kv. assign (fst kv) (snd kv)) (differing (data_members m) ps) (changedAttributes m)\<rparr>"
proof (induction ps arbitrary: m)
  case Nil
  then show ?case by (simp add: differing_def)
next
  case (Cons p ps)
  let ?m1 = "record_change True p m"
  have np: "fst p \<noteq> ''__proto__''" and rest: "list_all (\<lambda>k. k \<noteq> ''__proto__'') (map fst ps)"
    using Cons.prems by simp_all
  have ih: "fold (record_change True) ps ?m1
     = ?m1\<lparr>changedAttributes :=
           fold (\<lambda>kv. assign (fst kv) (snd kv)) (differing (data_members m) ps) (changedAttributes ?m1)\<rparr>"
    using Cons.IH [OF rest, of ?m1] by (simp add: data_members_record_change)
  show ?case
  proof (cases "isEqual (lookup (data_members m) (fst p)) (snd p)")
    case True
    then have "?m1 = m" by (simp add: record_change_def)
    then show ?thesis using ih True by (simp add: differing_def)
  next
    case False
    then have "?m1 = m\<lparr>changedAttributes := assign (fst p) (snd p) (changedAttributes m)\<rparr>"
      using np by (simp add: record_change_def store_plain)
    then show ?thesis using ih False by (simp add: differing_def)
  qed
qed

lemma fold_run_mhandler_copy_fields:
  "cp_fired (fold run_mhandler_copy hs cp) = cp_fired cp"
  "cp_modified (fold run_mhandler_copy hs cp) = cp_modified cp"
  "cp_created (fold run_mhandler_copy hs cp) = cp_created cp"
  "cp_events (fold run_mhandler_copy hs cp) = cp_events cp"
  "cp_changedAttributes (fold run_mhandler_copy hs cp) = cp_changedAttributes cp"
  "cp_attributes (fold run_mhandler_copy hs cp) = cp_attributes cp"
  "lookup (cp_members (fold run_mhandler_copy hs cp)) ''_dirty'' = lookup (cp_members cp) ''_dirty''"
proof (induction hs arbitrary: cp)
  case Nil
  {
    case 1 show ?case by simp
  next
    case 2 show ?case by simp
  next
    case 3 show ?case by simp
  next
    case 4 show ?case by simp
  next
    case 5 show ?case by simp
  next
    case 6 show ?case by simp
  next
    case 7 show ?case by simp
  }
next
  case (Cons h hs)
  {
    case 1 show ?case by (cases h) (simp_all add: Cons)
  next
    case 2 show ?case by (cases h) (simp_all add: Cons)
  next
    case 3 show ?case by (cases h) (simp_all add: Cons)
  next
    case 4 show ?case by (cases h) (simp_all add: Cons)
  next
    case 5 show ?case by (cases h) (simp_all add: Cons)
  next
    case 6 show ?case by (cases h) (simp_all add: Cons)
  next
    case 7 show ?case by (cases h) (simp_all add: Cons lookup_assign)
  }
qed

lemma fold_run_mhandler_copy_others:
  "filter (\<lambda>p. fst p \<noteq> ''_dirty'' \<and> fst p \<noteq> ''_hasBeenRendered'') (cp_members (fold run_mhandler_copy hs cp))
     = filter (\<lambda>p. fst p \<noteq> ''_dirty'' \<and> fst p \<noteq> ''_hasBeenRendered'') (cp_members cp)"
proof (induction hs arbitrary: cp)
  case Nil
  show ?case by simp
next
  case (Cons h hs)
  have "filter (\<lambda>p. fst p \<noteq> ''_dirty'' \<and> fst p \<noteq> ''_hasBeenRendered'')
          (assign ''_hasBeenRendered'' (JBool False) (cp_members cp))
      = filter (\<lambda>p. fst p \<noteq> ''_dirty'' \<and> fst p \<noteq> ''_hasBeenRendered'') (cp_members cp)"
    by (rule filter_assign_other [of "\<lambda>k. k \<noteq> ''_dirty'' \<and> k \<noteq> ''_hasBeenRendered''"]) simp
  then show ?case by (cases h) (simp_all add: Cons)
qed

lemma copy_trigger_fields:
  "cp_fired (copy_trigger name ev cp) = cp_fired cp @ [ev]"
  "cp_modified (copy_trigger name ev cp) = cp_modified cp"
  "cp_created (copy_trigger name ev cp) = cp_created cp"
  "cp_events (copy_trigger name ev cp) = cp_events cp"
  "cp_changedAttributes (copy_trigger name ev cp) = cp_changedAttributes cp"
  "cp_attributes (copy_trigger name ev cp) = cp_attributes cp"
  "lookup (cp_members (copy_trigger name ev cp)) ''_dirty'' = lookup (cp_members cp) ''_dirty''"
  "filter (\<lambda>p. fst p \<noteq> ''_dirty'' \<and> fst p \<noteq> ''_hasBeenRendered'') (cp_members (copy_trigger name ev cp))
     = filter (\<lambda>p. fst p \<noteq> ''_dirty'' \<and> fst p \<noteq> ''_hasBeenRendered'') (cp_members cp)"
  by (simp_all add: copy_trigger_def fold_run_mhandler_copy_fields fold_run_mhandler_copy_others)

lemma copy_finish_fields:
  "cp_modified (copy_finish quiet e cp) = (if cp_changedAttributes cp = [] then cp_modified cp else clock e)"
  "cp_fired (copy_finish quiet e cp)
     = cp_fired cp
       @ (if quiet then [] else [MEvChange (if cp_changedAttributes cp = [] then cp_modified cp else clock e)])
       @ [MEvDirty]"
  "cp_created (copy_finish quiet e cp) = cp_created cp"
  "cp_events (copy_finish quiet e cp) = cp_events cp"
  "cp_changedAttributes (copy_finish quiet e cp) = cp_changedAttributes cp"
  "cp_attributes (copy_finish quiet e cp) = cp_attributes cp"
  "lookup (cp_members (copy_finish quiet e cp)) ''_dirty'' = JBool True"
  by (simp_all add: copy_finish_def Let_def copy_trigger_fields lookup_assign)

lemma copy_finish_others:
  "filter (\<lambda>p. fst p \<noteq> ''_dirty'' \<and> fst p \<noteq> ''_hasBeenRendered'') (cp_members (copy_finish quiet e cp))
     = filter (\<lambda>p. fst p \<noteq> ''_dirty'' \<and> fst p \<noteq> ''_hasBeenRendered'') (cp_members cp)"
proof -
  have "filter (\<lambda>p. fst p \<noteq> ''_dirty'' \<and> fst p \<noteq> ''_hasBeenRendered'') (assign ''_dirty'' (JBool True) ms)
      = filter (\<lambda>p. fst p \<noteq> ''_dirty'' \<and> fst p \<noteq> ''_hasBeenRendered'') ms" for ms
    by (rule filter_assign_other [of "\<lambda>k. k \<noteq> ''_dirty'' \<and> k \<noteq> ''_hasBeenRendered''"]) simp
  then show ?thesis by (simp add: copy_finish_def Let_def copy_trigger_fields)
qed

text \<open>
  Claim C10 (the internal mapping form of \<^verbatim>\<open>Model.set\<close>), as amended. For a patch
  that names none of the members \<^verbatim>\<open>attributes\<close>, \<^verbatim>\<open>changedAttributes\<close>,
  \<^verbatim>\<open>options\<close>, \<^verbatim>\<open>collection\<close>, \<^verbatim>\<open>created\<close>,
  \<^verbatim>\<open>modified\<close>, \<^verbatim>\<open>_events\<close> and \<^verbatim>\<open>__proto__\<close> and no method of
  the model, and a truthy value argument, \<^verbatim>\<open>set\<close> returns the copy, not the
  model. The model after the call is the model before it but for
  \<^verbatim>\<open>changedAttributes\<close>, to which every entry of the patch that differs, for
  \<^verbatim>\<open>isEqual\<close>, from the model's own member has been assigned, in the order of the
  patch: the dirty flag, the timestamp, the attributes and the event record of the model
  are unchanged. The copy holds the data members of the model merged with the patch (but
  for \<^verbatim>\<open>_dirty\<close>, which is true, and \<^verbatim>\<open>_hasBeenRendered\<close>, which the
  handlers of the copy may reset), a copy of the changed attributes as the call left them
  in the model, and a copy of the attributes; its timestamp is the instant of the call
  when its changed attributes are not empty, and the model's otherwise; and the events
  fire on the copy: \<^verbatim>\<open>change\<close> unless silent, then \<^verbatim>\<open>dirty\<close>.
\<close>

theorem Model_set_internal_mapping:
  assumes "typeof key = ''object''" and "truthy val"
    and "list_all (\<lambda>k. k \<notin> set (field_members @ opaque_members @ function_members)) (map fst (own_entries key))"
  shows "\<exists>cp m'. Model_set key val quiet ignored e m = Inr (MRetCopy cp, m')
     \<and> m' = m\<lparr>changedAttributes :=
                fold (\<lambda>kv. assign (fst kv) (snd kv)) (differing (data_members m) (own_entries key))
                  (changedAttributes m)\<rparr>
     \<and> filter (\<lambda>p. fst p \<noteq> ''_dirty'' \<and> fst p \<noteq> ''_hasBeenRendered'') (cp_members cp)
         = filter (\<lambda>p. fst p \<noteq> ''_dirty'' \<and> fst p \<noteq> ''_hasBeenRendered'')
             (extend2 (JObj (data_members m)) key)
     \<and> lookup (cp_members cp) ''_dirty'' = JBool True
     \<and> cp_changedAttributes cp = extend1 (JObj (changedAttributes m'))
     \<and> cp_attributes cp = extend1 (JObj (attributes m))
     \<and> cp_created cp = created m
     \<and> cp_modified cp = (if cp_changedAttributes cp = [] then modified m else clock e)
     \<and> cp_events cp = m_events m
     \<and> cp_fired cp = (if quiet then [] else [MEvChange (cp_modified cp)]) @ [MEvDirty]"
proof -
  let ?es = "own_entries key"
  let ?m1 = "m\<lparr>changedAttributes :=
                fold (\<lambda>kv. assign (fst kv) (snd kv)) (differing (data_members m) ?es) (changedAttributes m)\<rparr>"
  let ?cp0 = "\<lparr> cp_members = extend2 (JObj (data_members m)) key,
                cp_changedAttributes = extend1 (JObj (changedAttributes ?m1)),
                cp_attributes = extend1 (JObj (attributes m)),
                cp_created = created m, cp_modified = modified m,
                cp_events = m_events m, cp_fired = [] \<rparr>"
  have names: "\<And>k. k \<in> set (map fst ?es) \<Longrightarrow> k \<notin> set (field_members @ opaque_members @ function_members)"
    using assms(3) by (fastforce simp: list_all_iff)
  have no_throw: "''hasOwnProperty'' \<notin> set (map fst ?es)"
  proof
    assume "''hasOwnProperty'' \<in> set (map fst ?es)"
    then have "''hasOwnProperty'' \<notin> set (field_members @ opaque_members @ function_members)" by (rule names)
    then show False by (simp add: function_members_def object_functions_def)
  qed
  have no_proto: "list_all (\<lambda>k. k \<noteq> ''__proto__'') (map fst ?es)"
  proof -
    have "k \<noteq> ''__proto__''" if "k \<in> set (map fst ?es)" for k
      using names [OF that] by (auto simp: opaque_members_def)
    then show ?thesis by (simp add: list_all_iff)
  qed
  have typed: "\<not> list_ex (\<lambda>k. k \<in> set (field_members @ opaque_members @ function_members)) (map fst ?es)"
    using names by (auto simp: list_ex_iff)
  have loop: "fold (record_change True) ?es m = ?m1"
    by (rule fold_record_change_internal [OF no_proto])
  have dm: "data_members ?m1 = data_members m" by (simp add: data_members_def)
  have call: "Model_set key val quiet ignored e m = Inr (MRetCopy (copy_finish quiet e ?cp0), ?m1)"
    using assms(1,2) no_throw typed unfolding Model_set_def Let_def loop dm by simp
  show ?thesis
    apply (rule exI [of _ "copy_finish quiet e ?cp0"])
    apply (rule exI [of _ ?m1])
    using call by (simp add: copy_finish_fields copy_finish_others)
qed

theorem Model_set_internal_mapping_witness:
  "typeof (JObj [(''_hasBeenRendered'', JBool True), (''foo'', JNum 1)]) = ''object'' \<and> truthy (JBool True)
   \<and> list_all (\<lambda>k. k \<notin> set (field_members @ opaque_members @ function_members))
         (map fst (own_entries (JObj [(''_hasBeenRendered'', JBool True), (''foo'', JNum 1)])))
   \<and> (\<exists>cp m'. Model_set (JObj [(''_hasBeenRendered'', JBool True), (''foo'', JNum 1)]) (JBool True)
                  False False (env_at 9) tagged = Inr (MRetCopy cp, m')
         \<and> m' = tagged\<lparr>changedAttributes := [(''_hasBeenRendered'', JBool True), (''foo'', JNum 1)]\<rparr>
         \<and> filter (\<lambda>p. fst p \<noteq> ''_dirty'' \<and> fst p \<noteq> ''_hasBeenRendered'') (cp_members cp)
             = [(''guid'', JStr ''guid-0''), (''debug'', JBool False), (''_uniqueField'', JStr ''id''),
                (''$el'', JNull), (''template'', JNull), (''templateRender'', JStr []), (''foo'', JNum 1)]
         \<and> lookup (cp_members cp) ''_dirty'' = JBool True
         \<and> cp_changedAttributes cp = [(''_hasBeenRendered'', JBool True), (''foo'', JNum 1)]
         \<and> cp_attributes cp = [(''id'', JNum 1), (''tags'', JObj [(''a'', JNum 1)])]
         \<and> modified tagged = 5 \<and> cp_modified cp = 9
         \<and> cp_fired cp = [MEvChange 9, MEvDirty])"
proof -
  let ?key = "JObj [(''_hasBeenRendered'', JBool True), (''foo'', JNum 1)]"
  let ?ch = "[(''_hasBeenRendered'', JBool True), (''foo'', JNum 1)]"
  have h1: "typeof ?key = ''object''" by simp
  have h2: "truthy (JBool True)" by simp
  have h3: "list_all (\<lambda>k. k \<notin> set (field_members @ opaque_members @ function_members))
              (map fst (own_entries ?key))"
    by code_simp
  have e1: "fold (\<lambda>kv. assign (fst kv) (snd kv)) (differing (data_members tagged) (own_entries ?key))
              (changedAttributes tagged) = ?ch"
    by code_simp
  have e2: "filter (\<lambda>p. fst p \<noteq> ''_dirty'' \<and> fst p \<noteq> ''_hasBeenRendered'')
              (extend2 (JObj (data_members tagged)) ?key)
          = [(''guid'', JStr ''guid-0''), (''debug'', JBool False), (''_uniqueField'', JStr ''id''),
             (''$el'', JNull), (''template'', JNull), (''templateRender'', JStr []), (''foo'', JNum 1)]"
    by code_simp
  have e3: "extend1 (JObj ?ch) = ?ch" by code_simp
  have e4: "extend1 (JObj (attributes tagged)) = [(''id'', JNum 1), (''tags'', JObj [(''a'', JNum 1)])]"
    by code_simp
  have e5: "modified tagged = 5" "clock (env_at 9) = 9" by code_simp+
  from Model_set_internal_mapping [OF h1 h2 h3, of False False "env_at 9" tagged]
  obtain cp m' where r: "Model_set ?key (JBool True) False False (env_at 9) tagged = Inr (MRetCopy cp, m')"
    and m': "m' = tagged\<lparr>changedAttributes :=
                fold (\<lambda>kv. assign (fst kv) (snd kv)) (differing (data_members tagged) (own_entries ?key))
                  (changedAttributes tagged)\<rparr>"
    and mem: "filter (\<lambda>p. fst p \<noteq> ''_dirty'' \<and> fst p \<noteq> ''_hasBeenRendered'') (cp_members cp)
         = filter (\<lambda>p. fst p \<noteq> ''_dirty'' \<and> fst p \<noteq> ''_hasBeenRendered'')
             (extend2 (JObj (data_members tagged)) ?key)"
    and dirty: "lookup (cp_members cp) ''_dirty'' = JBool True"
    and ch: "cp_changedAttributes cp = extend1 (JObj (changedAttributes m'))"
    and at: "cp_attributes cp = extend1 (JObj (attributes tagged))"
    and md: "cp_modified cp = (if cp_changedAttributes cp = [] then modified tagged else clock (env_at 9))"
    and fired: "cp_fired cp = (if False then [] else [MEvChange (cp_modified cp)]) @ [MEvDirty]"
    by (elim exE conjE)
  have g1: "m' = tagged\<lparr>changedAttributes := ?ch\<rparr>" using m' unfolding e1 .
  have g2: "cp_changedAttributes cp = ?ch" using ch unfolding g1 by (simp add: e3)
  have g3: "cp_modified cp = 9" using md unfolding g2 by (simp add: e5)
  have g4: "cp_fired cp = [MEvChange 9, MEvDirty]" using fired unfolding g3 by simp
  have "\<exists>cp m'. Model_set ?key (JBool True) False False (env_at 9) tagged = Inr (MRetCopy cp, m')
         \<and> m' = tagged\<lparr>changedAttributes := ?ch\<rparr>
         \<and> filter (\<lambda>p. fst p \<noteq> ''_dirty'' \<and> fst p \<noteq> ''_hasBeenRendered'') (cp_members cp)
             = [(''guid'', JStr ''guid-0''), (''debug'', JBool False), (''_uniqueField'', JStr ''id''),
                (''$el'', JNull), (''template'', JNull), (''templateRender'', JStr []), (''foo'', JNum 1)]
         \<and> lookup (cp_members cp) ''_dirty'' = JBool True
         \<and> cp_changedAttributes cp = ?ch
         \<and> cp_attributes cp = [(''id'', JNum 1), (''tags'', JObj [(''a'', JNum 1)])]
         \<and> modified tagged = 5 \<and> cp_modified cp = 9
         \<and> cp_fired cp = [MEvChange 9, MEvDirty]"
    by (intro exI conjI) (rule r g1 mem [unfolded e2] dirty g2 at [unfolded e4] e5(1) g3 g4)+
  with h1 h2 h3 show ?thesis by (intro conjI)
qed

text \<open>
  The claim as stated fails: \<^verbatim>\<open>set({foo: 1}, true)\<close> on the model
  \<^verbatim>\<open>tagged\<close>, which has no member \<^verbatim>\<open>foo\<close>, writes the entry into the
  \<^verbatim>\<open>changedAttributes\<close> of the model itself, before the copy is made.
\<close>

theorem Model_set_internal_mutates_counterexample:
  "(case Model_set (JObj [(''foo'', JNum 1)]) (JBool True) False False (env_at 9) tagged of
      Inl f \<Rightarrow> False
    | Inr (r, m') \<Rightarrow>
        changedAttributes tagged = [] \<and> changedAttributes m' = [(''foo'', JNum 1)] \<and> m' \<noteq> tagged)"
  by code_simp


section \<open>Patches that name a member of Object.prototype\<close>

text \<open>
  \<^verbatim>\<open>set({toString: undefined, name: "a"})\<close> on the clean model
  \<^verbatim>\<open>{id: 1, name: "a"}\<close>: the local value \<^verbatim>\<open>attributes.toString\<close> is the
  inherited function, which differs from undefined, so the entry is recorded and the
  timestamp advances; the merge skips the undefined value.
\<close>

lemma set_inherited_name_is_recorded:
  "(case Model_set (JObj [(''toString'', JUndefined), (''name'', JStr ''a'')]) JUndefined False False
          (env_at 9) (last (items two_items)) of
      Inl f \<Rightarrow> False
    | Inr (r, m) \<Rightarrow>
        changedAttributes m = [(''toString'', JUndefined)] \<and> modified m = 9
        \<and> attributes m = [(''id'', JNum 1), (''name'', JStr ''a'')])"
  by code_simp

text \<open>
  A patch that owns a property \<^verbatim>\<open>__proto__\<close> with a primitive value (such a patch
  comes from \<^verbatim>\<open>JSON.parse\<close>): the value differs from the local value, the
  assignment to \<^verbatim>\<open>changedAttributes\<close> is dropped by the accessor, and the merge
  skips the name. Nothing is recorded and the timestamp stays.
\<close>

lemma set_own_proto_is_not_recorded:
  "(case Model_set (JObj [(''__proto__'', JNum 1), (''name'', JStr ''a'')]) JUndefined False False
          (env_at 9) (last (items two_items)) of
      Inl f \<Rightarrow> False
    | Inr (r, m) \<Rightarrow>
        changedAttributes m = [] \<and> modified m = 5
        \<and> attributes m = [(''id'', JNum 1), (''name'', JStr ''a'')])"
  by code_simp

text \<open>
  A snapshot element that owns a property \<^verbatim>\<open>hasOwnProperty\<close>: after
  \<^verbatim>\<open>add([{id: 1}])\<close>, \<^verbatim>\<open>set([{id: 1, hasOwnProperty: 1}])\<close> throws a
  TypeError from the \<^verbatim>\<open>set\<close> of the model, and the attributes are as before.
\<close>

lemma set_own_hasOwnProperty_throws:
  "(case Collection_set (JArr [JObj [(''id'', JNum 1), (''hasOwnProperty'', JNum 1)]]) \<lparr>set_silent = False\<rparr>
          (env_at 9)
          (state_of (Collection_add (JArr [JObj [(''id'', JNum 1)]]) loud (env_at 5) (Collection_new (JObj [])))) of
      Inl (f, c) \<Rightarrow> f = TypeError \<and> map attributes (items c) = [[(''id'', JNum 1)]]
    | Inr x \<Rightarrow> False)"
  by code_simp

text \<open>Array indices are listed first: \<^verbatim>\<open>set({b: 1, 1: "a", 0: 3})\<close>, whose keys
  the language lists as 0, 1, b.\<close>

lemma set_lists_array_indices_first:
  "(case Model_set (JObj [(''0'', JNum 3), (''1'', JStr ''a''), (''b'', JNum 1)]) JUndefined False False
          (env_at 9) (last (items two_items)) of
      Inl f \<Rightarrow> False
    | Inr (r, m) \<Rightarrow>
        changedAttributes m = [(''0'', JNum 3), (''1'', JStr ''a''), (''b'', JNum 1)]
        \<and> attributes m = [(''0'', JNum 3), (''1'', JStr ''a''), (''id'', JNum 1), (''name'', JStr ''a''),
                           (''b'', JNum 1)])"
  by code_simp


section \<open>Handlers that only log\<close>


lemma and_then_Inl [simp]: "and_then (Inl x) f = Inl x"
  by (simp add: and_then_def)





section \<open>The reconciliation of Collection.set\<close>

subsection \<open>The snapshot\<close>

lemma inherited_id [simp]: "inherited ''id'' = Inr JUndefined"
  by (simp add: inherited_def object_prototype_def object_functions_def)

lemma elt_key_obj [simp]: "elt_key (JObj ps) = lookup ps ''id''"
  by (simp add: elt_key_def lookup_def split: option.splits)




subsection \<open>The first loop\<close>


subsection \<open>remove\<close>





subsection \<open>Merging a patch\<close>

lemma merged_None_iff: "(merged src v = None) = (v = JUndefined)"
  by (cases v) auto







subsection \<open>Applying a snapshot element to a model\<close>





subsection \<open>The third loop\<close>









subsection \<open>add\<close>



lemma mset_insert_by: "mset (insert_by cmp x ys) = add_mset x (mset ys)"
  by (induction ys) auto

lemma mset_js_sort: "mset (js_sort cmp xs) = mset xs"
  by (induction xs) (auto simp: js_sort_def mset_insert_by)

lemma set_js_sort: "set (js_sort cmp xs) = set xs"
  using mset_js_sort [of cmp xs] by (metis set_mset_mset)

lemma length_js_sort: "length (js_sort cmp xs) = length xs"
  using mset_js_sort [of cmp xs] by (metis size_mset)

lemma distinct_map_js_sort: "distinct (map f (js_sort cmp xs)) = distinct (map f xs)"
proof -
  have "mset (map f (js_sort cmp xs)) = mset (map f xs)" by (simp add: mset_js_sort)
  then show ?thesis by (rule mset_eq_imp_distinct_iff)
qed




subsection \<open>The whole reconciliation\<close>








subsection \<open>Sequences of calls\<close>






lemma set_duplicate_key:
  "(case Collection_set (JArr [JObj [(''id'', JNum 1)], JObj [(''id'', JNum 1)]]) \<lparr>set_silent = False\<rparr>
          (env_at 5) (Collection_new (JObj [])) of
      Inl x \<Rightarrow> False
    | Inr (r, c) \<Rightarrow> map key_of (items c) = [JNum 1, JNum 1])"
  by code_simp

end
